theory Spec2Isabelle
  imports Complex_Main "HOL-Library.Monad_Syntax" "HOL-Library.Log_Nat"
begin

section \<open>Bicubic resize (mace/ops/resize_bicubic.cc)\<close>

text \<open>
  A shallow embedding of the bicubic resize operator, in two parts.

  The first part takes the arithmetic the source writes down and evaluates it exactly:
  \<open>index_t\<close> (a 64-bit signed integer in the source) is \<open>int\<close>, and \<open>float\<close> is
  \<open>real\<close>, every \<open>float\<close> operation of the source being the exact operation on the
  reals. The properties of the operators, of the index bounds and of the two weight
  branches are stated on this part.

  The second part repeats the coefficient table, the sample locator and the
  interpolation with the arithmetic of the machine: every \<open>float\<close> operation is
  rounded to single precision, and every conversion to \<open>index_t\<close> is checked against
  the 64-bit range. The properties of the input coordinate and of the table offset
  are stated on this part; the property of the separable interpolation is stated on
  both, an identity in exact arithmetic and a bound on the rounding error in single
  precision. Infinities and NaN are values of neither part.

  Memory. A buffer is a list. A read or write outside a buffer is undefined behaviour
  in the source; here it is the value \<open>None\<close> (or the outcome
  \<open>UndefinedBehaviour\<close>), so that it is a branch of the model.
\<close>

type_synonym index_t = int
type_synonym float = real

subsection \<open>Constants and helpers of the C++ library\<close>

text \<open>\<open>std::numeric_limits<float>::min()\<close>: the smallest positive normalized
  single-precision number, \<open>2\<^sup>-\<^sup>1\<^sup>2\<^sup>6\<close>.\<close>

definition FLT_MIN :: float where
  "FLT_MIN = 1 / 2 ^ 126"

text \<open>\<open>lrintf\<close> in the default rounding mode: the nearest integer, a tie going to
  the even neighbour.\<close>

definition lrintf :: "float \<Rightarrow> index_t" where
  "lrintf v =
     (let f = \<lfloor>v\<rfloor>; d = v - of_int f
      in if d < 1 / 2 then f
         else if 1 / 2 < d then f + 1
         else if even f then f else f + 1)"

text \<open>Reading element \<open>p\<close> of a buffer through a raw pointer.\<close>

definition buf_read :: "'a list \<Rightarrow> index_t \<Rightarrow> 'a option" where
  "buf_read buf p = (if 0 \<le> p \<and> p < int (length buf) then Some (buf ! nat p) else None)"

text \<open>Writing element \<open>p\<close> of a buffer through a raw pointer.\<close>

definition buf_write :: "'a list \<Rightarrow> index_t \<Rightarrow> 'a \<Rightarrow> 'a list option" where
  "buf_write buf p v =
     (if 0 \<le> p \<and> p < int (length buf) then Some (buf[nat p := v]) else None)"

subsection \<open>The coordinate transformation mode\<close>

text \<open>
  The enumeration lives in \<open>coordinate_transformation_mode.h\<close>, which is not part of
  the sources at hand. The operator reads the mode as an integer argument and casts it,
  and \<open>GetWeightsAndIndices\<close> names two enumerators, \<open>HALF_PIXEL\<close> and
  \<open>PYTORCH_HALF_PIXEL\<close>; \<open>NONE\<close> is the default \<open>0\<close>. Every other value
  of the cast is \<open>OTHER_MODE n\<close>.
\<close>

datatype CoordinateTransformationMode =
  NONE | HALF_PIXEL | PYTORCH_HALF_PIXEL | OTHER_MODE int

subsection \<open>The coefficient table\<close>

text \<open>
  \<open>common::utils::kTableSize\<close> is declared in \<open>mace/ops/common/utils.h\<close>, which is
  not part of the sources at hand: it is the parameter \<open>K\<close> of every function that
  uses it.

  One iteration of the loop of \<open>InitCoeffsTable\<close> writes the entries \<open>2 * i\<close> and
  \<open>2 * i + 1\<close>; the loop runs for \<open>i = 0, \<dots>, K\<close>.
\<close>

definition coeff_entries :: "index_t \<Rightarrow> float \<Rightarrow> index_t \<Rightarrow> float list" where
  "coeff_entries K A i =
     (let x = of_int i * 1 / of_int K;
          c0 = ((A + 2) * x - (A + 3)) * x * x + 1;
          x1 = x + 1;
          c1 = ((A * x1 - 5 * A) * x1 + 8 * A) * x1 - 4 * A
      in [c0, c1])"

definition InitCoeffsTable :: "index_t \<Rightarrow> float \<Rightarrow> float list" where
  "InitCoeffsTable K A = concat (map (coeff_entries K A) [0..K])"

definition GetCoeffsTable :: "index_t \<Rightarrow> bool \<Rightarrow> float list" where
  "GetCoeffsTable K is_tensorflow_half_pixel =
     (if is_tensorflow_half_pixel then InitCoeffsTable K (- 0.5)
      else InitCoeffsTable K (- 0.75))"

subsection \<open>The sample locator\<close>

definition Bound :: "index_t \<Rightarrow> index_t \<Rightarrow> index_t" where
  "Bound val limit = min (limit - 1) (max 0 val)"

text \<open>The local variables \<open>in\<close>, \<open>in_loc\<close>, \<open>delta\<close> and \<open>offset\<close> of
  \<open>GetWeightsAndIndices\<close>, in the order the source computes them.\<close>

definition GWI_in ::
  "float \<Rightarrow> CoordinateTransformationMode \<Rightarrow> index_t \<Rightarrow> index_t \<Rightarrow> float" where
  "GWI_in scale coordinate_transformation_mode out_loc out_size =
     (if coordinate_transformation_mode = HALF_PIXEL
      then (of_int out_loc + 0.5) * scale - 0.5
      else if coordinate_transformation_mode = PYTORCH_HALF_PIXEL
      then (if out_size > 1 then (of_int out_loc + 0.5) * scale - 0.5 else 0)
      else of_int out_loc * scale)"

definition GWI_in_loc ::
  "float \<Rightarrow> CoordinateTransformationMode \<Rightarrow> index_t \<Rightarrow> index_t \<Rightarrow> index_t" where
  "GWI_in_loc scale coordinate_transformation_mode out_loc out_size =
     \<lfloor>GWI_in scale coordinate_transformation_mode out_loc out_size\<rfloor>"

definition GWI_delta ::
  "float \<Rightarrow> CoordinateTransformationMode \<Rightarrow> index_t \<Rightarrow> index_t \<Rightarrow> float" where
  "GWI_delta scale coordinate_transformation_mode out_loc out_size =
     GWI_in scale coordinate_transformation_mode out_loc out_size
       - of_int (GWI_in_loc scale coordinate_transformation_mode out_loc out_size)"

definition GWI_offset ::
  "index_t \<Rightarrow> float \<Rightarrow> CoordinateTransformationMode \<Rightarrow> index_t \<Rightarrow> index_t \<Rightarrow> index_t" where
  "GWI_offset K scale coordinate_transformation_mode out_loc out_size =
     lrintf (GWI_delta scale coordinate_transformation_mode out_loc out_size * of_int K)"

definition GWI_indices ::
  "float \<Rightarrow> CoordinateTransformationMode \<Rightarrow> index_t \<Rightarrow> index_t \<Rightarrow> index_t
     \<Rightarrow> index_t list" where
  "GWI_indices scale coordinate_transformation_mode out_loc out_size limit =
     (let in_loc = GWI_in_loc scale coordinate_transformation_mode out_loc out_size
      in [Bound (in_loc - 1) limit, Bound in_loc limit,
          Bound (in_loc + 1) limit, Bound (in_loc + 2) limit])"

text \<open>The four weights of the \<open>HALF_PIXEL\<close> branch before the rescaling: a tap whose
  bounded index is not its own position gets \<open>0\<close> and the table is not read for it.\<close>

definition half_pixel_raw_weights ::
  "float list \<Rightarrow> index_t \<Rightarrow> index_t \<Rightarrow> index_t \<Rightarrow> index_t list \<Rightarrow> float list option" where
  "half_pixel_raw_weights coeffs_tab K in_loc offset indices =
     do {
       w0 \<leftarrow> (if indices ! 0 = in_loc - 1 then buf_read coeffs_tab (offset * 2 + 1)
              else Some 0);
       w1 \<leftarrow> (if indices ! 1 = in_loc then buf_read coeffs_tab (offset * 2)
              else Some 0);
       w2 \<leftarrow> (if indices ! 2 = in_loc + 1 then buf_read coeffs_tab ((K - offset) * 2)
              else Some 0);
       w3 \<leftarrow> (if indices ! 3 = in_loc + 2 then buf_read coeffs_tab ((K - offset) * 2 + 1)
              else Some 0);
       Some [w0, w1, w2, w3]
     }"

text \<open>The rescaling of the \<open>HALF_PIXEL\<close> branch.\<close>

definition normalize_weights :: "float list \<Rightarrow> float list" where
  "normalize_weights weights =
     (let weight_sum = weights ! 0 + weights ! 1 + weights ! 2 + weights ! 3
      in if \<bar>weight_sum\<bar> \<ge> 1000 * FLT_MIN
         then (let one_over_weight_sum = 1 / weight_sum
               in [weights ! 0 * one_over_weight_sum, weights ! 1 * one_over_weight_sum,
                   weights ! 2 * one_over_weight_sum, weights ! 3 * one_over_weight_sum])
         else weights)"

text \<open>The four weights of the other branch, read from the table in the order of the
  initializer list.\<close>

definition table_weights :: "float list \<Rightarrow> index_t \<Rightarrow> index_t \<Rightarrow> float list option" where
  "table_weights coeffs_tab K offset =
     do {
       w0 \<leftarrow> buf_read coeffs_tab (offset * 2 + 1);
       w1 \<leftarrow> buf_read coeffs_tab (offset * 2);
       w2 \<leftarrow> buf_read coeffs_tab ((K - offset) * 2);
       w3 \<leftarrow> buf_read coeffs_tab ((K - offset) * 2 + 1);
       Some [w0, w1, w2, w3]
     }"

text \<open>\<open>GetWeightsAndIndices\<close> returns the pair of its two output vectors, or
  \<open>None\<close> when it reads outside the coefficient table.\<close>

definition GetWeightsAndIndices ::
  "index_t \<Rightarrow> float \<Rightarrow> CoordinateTransformationMode \<Rightarrow> index_t \<Rightarrow> index_t \<Rightarrow> index_t
     \<Rightarrow> (float list \<times> index_t list) option" where
  "GetWeightsAndIndices K scale coordinate_transformation_mode out_loc out_size limit =
     (let in_loc = GWI_in_loc scale coordinate_transformation_mode out_loc out_size;
          offset = GWI_offset K scale coordinate_transformation_mode out_loc out_size;
          indices = GWI_indices scale coordinate_transformation_mode out_loc out_size limit
      in if coordinate_transformation_mode = HALF_PIXEL
         then do {
           raw \<leftarrow> half_pixel_raw_weights (GetCoeffsTable K True) K in_loc offset indices;
           Some (normalize_weights raw, indices)
         }
         else do {
           weights \<leftarrow> table_weights (GetCoeffsTable K False) K offset;
           Some (weights, indices)
         })"

subsection \<open>The 1D interpolator\<close>

definition Interpolate1D :: "float list \<Rightarrow> float list \<Rightarrow> float" where
  "Interpolate1D weights vals =
     vals ! 0 * weights ! 0 + vals ! 1 * weights ! 1 +
     vals ! 2 * weights ! 2 + vals ! 3 * weights ! 3"

subsection \<open>The 2D resize driver\<close>

text \<open>A counting loop \<open>for (i = lo; i < n; ++i)\<close> over a state; the body may fail,
  and then the loop does.\<close>

function for_loop ::
  "index_t \<Rightarrow> index_t \<Rightarrow> (index_t \<Rightarrow> 's \<Rightarrow> 's option) \<Rightarrow> 's \<Rightarrow> 's option" where
  "for_loop i n body s =
     (if i < n
      then (case body i s of None \<Rightarrow> None | Some s1 \<Rightarrow> for_loop (i + 1) n body s1)
      else Some s)"
  by pat_completeness auto
termination
  by (relation "measure (\<lambda>(i, n, body, s). nat (n - i))") auto

declare for_loop.simps [simp del]

text \<open>One pass of the loop over \<open>i\<close> in \<open>ResizeImage\<close>: the four samples of row
  \<open>y_indices[i]\<close> at the four columns, combined with the column weights.
  \<open>base\<close> is the offset of \<open>channel_input_ptr\<close> in \<open>images\<close>.\<close>

definition row_coeff ::
  "float list \<Rightarrow> index_t \<Rightarrow> index_t \<Rightarrow> index_t list \<Rightarrow> float list \<Rightarrow> index_t list
     \<Rightarrow> index_t \<Rightarrow> float option" where
  "row_coeff images base in_width y_indices x_weights x_indices i =
     do {
       v0 \<leftarrow> buf_read images (base + (y_indices ! nat i * in_width + x_indices ! 0));
       v1 \<leftarrow> buf_read images (base + (y_indices ! nat i * in_width + x_indices ! 1));
       v2 \<leftarrow> buf_read images (base + (y_indices ! nat i * in_width + x_indices ! 2));
       v3 \<leftarrow> buf_read images (base + (y_indices ! nat i * in_width + x_indices ! 3));
       Some (Interpolate1D x_weights [v0, v1, v2, v3])
     }"

text \<open>The body of the loop over the channel \<open>c\<close>, up to the value it stores: the
  vector \<open>coeff\<close> starts as four zeros, the loop over \<open>i\<close> fills it, and the row
  weights combine it.\<close>

definition ResizePixel ::
  "float list \<Rightarrow> index_t \<Rightarrow> index_t \<Rightarrow> index_t \<Rightarrow> index_t \<Rightarrow> index_t
     \<Rightarrow> float list \<Rightarrow> index_t list \<Rightarrow> float list \<Rightarrow> index_t list \<Rightarrow> float option" where
  "ResizePixel images in_height in_width channels b c y_weights y_indices x_weights x_indices =
     (let base = (b * channels + c) * in_height * in_width
      in do {
        coeff \<leftarrow> for_loop 0 4
          (\<lambda>i coeff. do {
             v \<leftarrow> row_coeff images base in_width y_indices x_weights x_indices i;
             Some (coeff[nat i := v])
           })
          [0, 0, 0, 0];
        Some (Interpolate1D y_weights coeff)
      })"

text \<open>
  \<open>ResizeImage\<close>. The thread pool and its \<open>Compute2D\<close> are not part of the sources
  at hand; the driver hands it the ranges \<open>(0, batch_size, 1)\<close> and
  \<open>(0, out_height, 1)\<close>, and the model runs the loop nest once over these whole
  ranges, in order. The result is the output buffer.
\<close>

definition ResizeImage ::
  "index_t \<Rightarrow> float list \<Rightarrow> index_t \<Rightarrow> index_t \<Rightarrow> index_t \<Rightarrow> index_t \<Rightarrow> index_t
     \<Rightarrow> index_t \<Rightarrow> float \<Rightarrow> float \<Rightarrow> CoordinateTransformationMode
     \<Rightarrow> float list \<Rightarrow> float list option" where
  "ResizeImage K images batch_size in_height in_width out_height out_width channels
       height_scale width_scale coordinate_transformation_mode output =
     for_loop 0 batch_size (\<lambda>b. for_loop 0 out_height (\<lambda>y out1. do {
       (y_weights, y_indices) \<leftarrow>
         GetWeightsAndIndices K height_scale coordinate_transformation_mode y
           out_height in_height;
       for_loop 0 out_width (\<lambda>x out2. do {
         (x_weights, x_indices) \<leftarrow>
           GetWeightsAndIndices K width_scale coordinate_transformation_mode x
             out_width in_width;
         for_loop 0 channels (\<lambda>c out3. do {
           v \<leftarrow> ResizePixel images in_height in_width channels b c
                  y_weights y_indices x_weights x_indices;
           buf_write out3 ((b * channels + c) * out_height * out_width + (y * out_width + x)) v
         }) out2
       }) out1
     })) output"

subsection \<open>The operators\<close>

text \<open>A tensor: its dimensions and its buffer.\<close>

record 'a Tensor =
  shape :: "index_t list"
  data :: "'a list"

text \<open>The status a call returns. The enumeration is not part of the sources at hand,
  which name \<open>MACE_SUCCESS\<close> only: \<open>MACE_FAILURE code\<close> stands for every other
  status.\<close>

datatype MaceStatus = MACE_SUCCESS | MACE_FAILURE int

text \<open>How a call of \<open>Run\<close> ends: it returns a status, a \<open>MACE_CHECK\<close> fails (with
  the text the check prints), or it touches memory outside a buffer.\<close>

datatype outcome = Returned MaceStatus | CheckFailed string | UndefinedBehaviour

text \<open>
  The helpers of \<open>mace/ops/common/utils.h\<close> and the tensor's own \<open>Resize\<close> are not part
  of the sources at hand. They are parameters of the operators: the table size, the
  scale computation, the reading of the size tensor, and \<open>Tensor::Resize\<close>, which
  returns a status and the tensor it leaves.
\<close>

record externals =
  kTableSize :: index_t
  CalculateResizeScale :: "index_t \<Rightarrow> index_t \<Rightarrow> bool \<Rightarrow> float"
  GetSizeParamFromTensor :: "int Tensor \<Rightarrow> index_t \<times> index_t"
  Resize :: "index_t list \<Rightarrow> float Tensor \<Rightarrow> MaceStatus \<times> float Tensor"

text \<open>The members of the CPU operator: \<open>align_corners_\<close>,
  \<open>coordinate_transformation_mode_\<close> and \<open>size_\<close> (a name cannot end in an
  underscore here, so each carries the operator's prefix instead).\<close>

record ResizeBicubicOp_CPU =
  cpu_align_corners :: bool
  cpu_coordinate_transformation_mode :: CoordinateTransformationMode
  cpu_size :: "index_t list"

text \<open>The members of the GPU operator, \<open>kernel_\<close> and \<open>size_\<close>.
  \<open>gpu_kernel\<close> stands for the \<open>Compute\<close> method of
  the OpenCL kernel object: from the input, the two output sizes and the output
  tensor to the way the call ends and the output tensor it leaves.\<close>

record ResizeBicubicOp_GPU =
  gpu_kernel :: "float Tensor \<Rightarrow> index_t \<Rightarrow> index_t \<Rightarrow> float Tensor \<Rightarrow> outcome \<times> float Tensor"
  gpu_size :: "index_t list"

text \<open>
  The resolution of the output size, written twice in the source (once in each
  \<open>Run\<close>). \<open>Input(0)\<close> is the image; \<open>more_inputs\<close> are the inputs after it, so
  \<open>InputSize()\<close> is \<open>1 + length more_inputs\<close> and \<open>Input(1)\<close> is the first of them.
  \<open>Inl\<close> carries the text of the failed check.
\<close>

definition resolve_size ::
  "externals \<Rightarrow> index_t list \<Rightarrow> int Tensor list \<Rightarrow> string + (index_t \<times> index_t)" where
  "resolve_size ext size_arg more_inputs =
     (if length size_arg = 2 \<and> size_arg ! 0 > 0 \<and> size_arg ! 1 > 0
      then Inr (size_arg ! 0, size_arg ! 1)
      else if \<not> (1 + int (length more_inputs) \<ge> 2)
      then Inl ''InputSize() >= 2''
      else Inr (GetSizeParamFromTensor ext (more_inputs ! 0)))"

text \<open>\<open>std::copy(src, src + n, dst)\<close> on two buffers.\<close>

definition std_copy :: "'a list \<Rightarrow> index_t \<Rightarrow> 'a list \<Rightarrow> 'a list option" where
  "std_copy src n dst =
     (if 0 \<le> n \<and> n \<le> int (length src) \<and> n \<le> int (length dst)
      then Some (take (nat n) src @ drop (nat n) dst)
      else None)"

text \<open>\<open>ResizeBicubicOp<DeviceType::CPU, float>::Run\<close>: the way the call ends and the
  output tensor it leaves.\<close>

definition Run_CPU ::
  "externals \<Rightarrow> ResizeBicubicOp_CPU \<Rightarrow> float Tensor \<Rightarrow> int Tensor list \<Rightarrow> float Tensor
     \<Rightarrow> outcome \<times> float Tensor" where
  "Run_CPU ext op input more_inputs output =
     (if length (shape input) \<noteq> 4
      then (CheckFailed ''input must be 4-dimensional.'', output)
      else
        let batch = shape input ! 0;
            channels = shape input ! 1;
            in_height = shape input ! 2;
            in_width = shape input ! 3
        in case resolve_size ext (cpu_size op) more_inputs of
             Inl msg \<Rightarrow> (CheckFailed msg, output)
           | Inr (out_height, out_width) \<Rightarrow>
               (case Resize ext [batch, channels, out_height, out_width] output of
                  (MACE_FAILURE code, output1) \<Rightarrow> (Returned (MACE_FAILURE code), output1)
                | (MACE_SUCCESS, output1) \<Rightarrow>
                    if out_height = in_height \<and> out_width = in_width
                    then (case std_copy (data input)
                                 (batch * channels * in_height * in_width) (data output1) of
                            None \<Rightarrow> (UndefinedBehaviour, output1)
                          | Some d \<Rightarrow> (Returned MACE_SUCCESS, output1\<lparr>data := d\<rparr>))
                    else
                      let height_scale =
                            CalculateResizeScale ext in_height out_height (cpu_align_corners op);
                          width_scale =
                            CalculateResizeScale ext in_width out_width (cpu_align_corners op)
                      in case ResizeImage (kTableSize ext) (data input) batch in_height
                                in_width out_height out_width channels height_scale
                                width_scale (cpu_coordinate_transformation_mode op)
                                (data output1) of
                           None \<Rightarrow> (UndefinedBehaviour, output1)
                         | Some d \<Rightarrow> (Returned MACE_SUCCESS, output1\<lparr>data := d\<rparr>)))"

text \<open>\<open>ResizeBicubicOp<DeviceType::GPU, float>::Run\<close>.\<close>

definition Run_GPU ::
  "externals \<Rightarrow> ResizeBicubicOp_GPU \<Rightarrow> float Tensor \<Rightarrow> int Tensor list \<Rightarrow> float Tensor
     \<Rightarrow> outcome \<times> float Tensor" where
  "Run_GPU ext op input more_inputs output =
     (if length (shape input) \<noteq> 4
      then (CheckFailed ''input must be 4-dimensional.'', output)
      else case resolve_size ext (gpu_size op) more_inputs of
             Inl msg \<Rightarrow> (CheckFailed msg, output)
           | Inr (out_height, out_width) \<Rightarrow> gpu_kernel op input out_height out_width output)"

subsection \<open>The full 2D convolution of the specification\<close>




subsection \<open>An instance of the missing helpers\<close>

text \<open>Modelled from the spec: \<open>CalculateResizeScale\<close> of
  \<open>mace/ops/common/utils.h\<close> is missing from the sources at hand. The specification:
  the scale is \<open>(in - 1) / (out - 1)\<close> when aligning corners and both dimensions
  exceed 1, otherwise \<open>in / out\<close>.\<close>

definition spec_CalculateResizeScale :: "index_t \<Rightarrow> index_t \<Rightarrow> bool \<Rightarrow> float" where
  "spec_CalculateResizeScale in_size out_size align_corners =
     (if align_corners \<and> in_size > 1 \<and> out_size > 1
      then (of_int in_size - 1) / (of_int out_size - 1)
      else of_int in_size / of_int out_size)"

text \<open>Modelled from the spec: \<open>GetSizeParamFromTensor\<close> of
  \<open>mace/ops/common/utils.h\<close> is missing from the sources at hand. The specification:
  a second input provides the height and the width as two integers.\<close>

definition spec_GetSizeParamFromTensor :: "int Tensor \<Rightarrow> index_t \<times> index_t" where
  "spec_GetSizeParamFromTensor size_tensor = (data size_tensor ! 0, data size_tensor ! 1)"

text \<open>Modelled from the spec: \<open>Tensor::Resize\<close> is missing from the sources at
  hand. The specification: the output tensor is resized to the output shape. This
  instance always succeeds and leaves a buffer of as many zeros as the shape has
  elements.\<close>

definition spec_Resize :: "index_t list \<Rightarrow> float Tensor \<Rightarrow> MaceStatus \<times> float Tensor" where
  "spec_Resize out_shape t =
     (MACE_SUCCESS, \<lparr>shape = out_shape, data = replicate (nat (prod_list out_shape)) 0\<rparr>)"

text \<open>The three instances together, for a table size \<open>K\<close>. The examples below
  use them; the theorems are about every value of the parameters.\<close>

definition spec_externals :: "index_t \<Rightarrow> externals" where
  "spec_externals K =
     \<lparr>kTableSize = K,
      CalculateResizeScale = spec_CalculateResizeScale,
      GetSizeParamFromTensor = spec_GetSizeParamFromTensor,
      Resize = spec_Resize\<rparr>"

subsection \<open>Notions for the proofs\<close>



section \<open>The same functions in single precision\<close>

text \<open>
  The functions of this part repeat the coefficient table, the sample locator and the
  interpolation of the source with the arithmetic of the machine: each \<open>float\<close>
  operation is the exact operation followed by the rounding \<open>f32\<close> to single
  precision, in the order in which the source writes the operations (no fused
  multiply-add), and each conversion to \<open>index_t\<close>, each index and each table
  position that the sample locator computes is checked against the 64-bit range. Their
  names end in
  \<open>_f32\<close>; apart from the rounding and the range checks they are the definitions
  of the first part.
\<close>

subsection \<open>Rounding to single precision and the 64-bit range\<close>

text \<open>An integer fits \<open>index_t\<close> when it lies in the signed 64-bit range. The
  source leaves the conversion of a \<open>float\<close> outside this range, and a signed
  overflow, undefined; \<open>idx\<close> makes both the value \<open>None\<close>.\<close>

definition fits_index_t :: "int \<Rightarrow> bool" where
  "fits_index_t v \<longleftrightarrow> - (2 ^ 63) \<le> v \<and> v < 2 ^ 63"

definition idx :: "int \<Rightarrow> index_t option" where
  "idx v = (if fits_index_t v then Some v else None)"

text \<open>The binary exponent of a positive real: \<open>2 powi (ilog2 x) \<le> x < 2 powi (ilog2 x + 1)\<close>.\<close>

definition ilog2 :: "real \<Rightarrow> int" where
  "ilog2 x =
     (if 1 \<le> x then bitlen \<lfloor>x\<rfloor> - 1
      else let k = bitlen \<lfloor>1 / x\<rfloor> - 1
           in if x * 2 ^ nat k = 1 then - k else - k - 1)"

text \<open>Rounding to a binary format with \<open>p\<close> digits and least normal exponent
  \<open>emin\<close>: to the nearest multiple of the unit in the last place of \<open>x\<close>, a tie
  going to the even multiple; below the normal range the unit stays that of
  \<open>emin\<close> (subnormal numbers). \<open>f32\<close> is the rounding to IEEE single precision
  and \<open>f64\<close> the rounding to double precision. A result beyond the largest finite
  number is kept as the real it is (the machine gives an infinity); in
  \<open>GetWeightsAndIndices\<close> such a value of \<open>in\<close> does not fit \<open>index_t\<close>, so
  the call is undefined in the source and \<open>None\<close> here either way. NaN and
  infinite arguments are not values of the model.\<close>

definition round_to :: "int \<Rightarrow> int \<Rightarrow> real \<Rightarrow> real" where
  "round_to p emin x =
     (if x = 0 then 0
      else let e = max (ilog2 \<bar>x\<bar>) emin;
               q = 2 powi (e - p + 1)
           in of_int (lrintf (x / q)) * q)"

definition f32 :: "real \<Rightarrow> real" where
  "f32 x = round_to 24 (- 126) x"

definition f64 :: "real \<Rightarrow> real" where
  "f64 x = round_to 53 (- 1022) x"

text \<open>The conversion of an \<open>index_t\<close> (or an \<open>int\<close>) to \<open>float\<close>.\<close>

definition float_of_index :: "index_t \<Rightarrow> real" where
  "float_of_index i = f32 (of_int i)"

subsection \<open>The coefficient table in single precision\<close>

text \<open>One iteration of the loop of \<open>InitCoeffsTable\<close>. The source computes
  \<open>x = i * 1.0f / kTableSize\<close> and the two polynomials in \<open>float\<close>; the step
  \<open>x += 1.0\<close> adds a \<open>double\<close> constant, so the sum is formed in double precision
  and then stored as a \<open>float\<close>.\<close>

definition coeff_entries_f32 :: "index_t \<Rightarrow> real \<Rightarrow> index_t \<Rightarrow> real list" where
  "coeff_entries_f32 K A i =
     (let x = f32 (f32 (float_of_index i * 1) / float_of_index K);
          c0 = f32 (f32 (f32 (f32 (f32 (f32 (A + 2) * x) - f32 (A + 3)) * x) * x) + 1);
          x1 = f32 (f64 (x + 1));
          c1 = f32 (f32 (f32 (f32 (f32 (f32 (A * x1) - f32 (5 * A)) * x1) + f32 (8 * A)) * x1)
                 - f32 (4 * A))
      in [c0, c1])"

definition InitCoeffsTable_f32 :: "index_t \<Rightarrow> real \<Rightarrow> real list" where
  "InitCoeffsTable_f32 K A = concat (map (coeff_entries_f32 K A) [0..K])"

definition GetCoeffsTable_f32 :: "index_t \<Rightarrow> bool \<Rightarrow> real list" where
  "GetCoeffsTable_f32 K is_tensorflow_half_pixel =
     (if is_tensorflow_half_pixel then InitCoeffsTable_f32 K (- 0.5)
      else InitCoeffsTable_f32 K (- 0.75))"

subsection \<open>The sample locator in single precision\<close>

text \<open>The local variable \<open>in\<close> of \<open>GetWeightsAndIndices\<close>: the first lines of
  the function, up to the call of \<open>std::floor\<close>.\<close>

definition GWI_in_f32 ::
  "real \<Rightarrow> CoordinateTransformationMode \<Rightarrow> index_t \<Rightarrow> index_t \<Rightarrow> real" where
  "GWI_in_f32 scale coordinate_transformation_mode out_loc out_size =
     (if coordinate_transformation_mode = HALF_PIXEL
      then f32 (f32 (f32 (float_of_index out_loc + 0.5) * scale) - 0.5)
      else if coordinate_transformation_mode = PYTORCH_HALF_PIXEL
      then (if out_size > 1
            then f32 (f32 (f32 (float_of_index out_loc + 0.5) * scale) - 0.5) else 0)
      else f32 (float_of_index out_loc * scale))"

text \<open>A read of the coefficient table at a computed position: the position has to
  fit \<open>index_t\<close> and to lie inside the table.\<close>

definition tab_read :: "real list \<Rightarrow> int \<Rightarrow> real option" where
  "tab_read coeffs_tab p = idx p \<bind> buf_read coeffs_tab"

text \<open>The rescaling of the \<open>HALF_PIXEL\<close> branch.\<close>

definition normalize_weights_f32 :: "real list \<Rightarrow> real list" where
  "normalize_weights_f32 weights =
     (let weight_sum = f32 (f32 (f32 (weights ! 0 + weights ! 1) + weights ! 2) + weights ! 3)
      in if \<bar>weight_sum\<bar> \<ge> f32 (1000 * FLT_MIN)
         then (let one_over_weight_sum = f32 (1 / weight_sum)
               in [f32 (weights ! 0 * one_over_weight_sum),
                   f32 (weights ! 1 * one_over_weight_sum),
                   f32 (weights ! 2 * one_over_weight_sum),
                   f32 (weights ! 3 * one_over_weight_sum)])
         else weights)"

text \<open>The function from the assignment of \<open>indices\<close> on, for given \<open>in_loc\<close> and
  \<open>offset\<close>: the four bounded indices and the weights of the two branches.\<close>

definition GWI_result_f32 ::
  "index_t \<Rightarrow> CoordinateTransformationMode \<Rightarrow> index_t \<Rightarrow> index_t \<Rightarrow> index_t
     \<Rightarrow> (real list \<times> index_t list) option" where
  "GWI_result_f32 K coordinate_transformation_mode limit in_loc offset =
     do {
       l1 \<leftarrow> idx (limit - 1);
       i0 \<leftarrow> idx (in_loc - 1);
       i2 \<leftarrow> idx (in_loc + 1);
       i3 \<leftarrow> idx (in_loc + 2);
       let indices = [Bound i0 limit, Bound in_loc limit, Bound i2 limit, Bound i3 limit];
       if coordinate_transformation_mode = HALF_PIXEL
       then do {
         w0 \<leftarrow> (if indices ! 0 = in_loc - 1
                then tab_read (GetCoeffsTable_f32 K True) (offset * 2 + 1) else Some 0);
         w1 \<leftarrow> (if indices ! 1 = in_loc
                then tab_read (GetCoeffsTable_f32 K True) (offset * 2) else Some 0);
         w2 \<leftarrow> (if indices ! 2 = in_loc + 1
                then tab_read (GetCoeffsTable_f32 K True) ((K - offset) * 2) else Some 0);
         w3 \<leftarrow> (if indices ! 3 = in_loc + 2
                then tab_read (GetCoeffsTable_f32 K True) ((K - offset) * 2 + 1) else Some 0);
         Some (normalize_weights_f32 [w0, w1, w2, w3], indices)
       }
       else do {
         w0 \<leftarrow> tab_read (GetCoeffsTable_f32 K False) (offset * 2 + 1);
         w1 \<leftarrow> tab_read (GetCoeffsTable_f32 K False) (offset * 2);
         w2 \<leftarrow> tab_read (GetCoeffsTable_f32 K False) ((K - offset) * 2);
         w3 \<leftarrow> tab_read (GetCoeffsTable_f32 K False) ((K - offset) * 2 + 1);
         Some ([w0, w1, w2, w3], indices)
       }
     }"

text \<open>The function from the call of \<open>std::floor\<close> on, for a given value of \<open>in\<close>:
  \<open>in_loc\<close> is the floor converted to \<open>index_t\<close>, \<open>delta\<close> is
  \<open>in - in_loc\<close> computed in \<open>float\<close>, and \<open>offset\<close> is the result of
  \<open>lrintf\<close> on the \<open>float\<close> product \<open>delta * kTableSize\<close>.\<close>

definition GWI_from_in_f32 ::
  "index_t \<Rightarrow> CoordinateTransformationMode \<Rightarrow> index_t \<Rightarrow> real
     \<Rightarrow> (real list \<times> index_t list) option" where
  "GWI_from_in_f32 K coordinate_transformation_mode limit in_f =
     do {
       in_loc \<leftarrow> idx \<lfloor>in_f\<rfloor>;
       let delta = f32 (in_f - float_of_index in_loc);
       offset \<leftarrow> idx (lrintf (f32 (delta * float_of_index K)));
       GWI_result_f32 K coordinate_transformation_mode limit in_loc offset
     }"

text \<open>\<open>GetWeightsAndIndices\<close> in single precision: the pair of its two output
  vectors, or \<open>None\<close> when the call is undefined in the source (a conversion or an
  index computation leaves the 64-bit range, or a read leaves the coefficient
  table).\<close>

definition GetWeightsAndIndices_f32 ::
  "index_t \<Rightarrow> real \<Rightarrow> CoordinateTransformationMode \<Rightarrow> index_t \<Rightarrow> index_t \<Rightarrow> index_t
     \<Rightarrow> (real list \<times> index_t list) option" where
  "GetWeightsAndIndices_f32 K scale coordinate_transformation_mode out_loc out_size limit =
     GWI_from_in_f32 K coordinate_transformation_mode limit
       (GWI_in_f32 scale coordinate_transformation_mode out_loc out_size)"

subsection \<open>The interpolation in single precision\<close>




subsection \<open>The full 2D convolution of the specification in single precision\<close>


subsection \<open>A notion for the proofs about the rounding\<close>

text \<open>The exponent that \<open>f32\<close> uses for \<open>x\<close>.\<close>

definition f32_exp :: "real \<Rightarrow> int" where
  "f32_exp x = max (ilog2 \<bar>x\<bar>) (- 126)"

section \<open>Properties in exact arithmetic\<close>

subsection \<open>The coefficient table and the table offset\<close>

lemma Bound_range: "1 \<le> limit \<Longrightarrow> 0 \<le> Bound val limit \<and> Bound val limit \<le> limit - 1"
  by (simp add: Bound_def)

lemma length_concat_pairs:
  "(\<And>x. length (f x) = 2) \<Longrightarrow> length (concat (map f xs)) = 2 * length xs"
  by (induction xs) simp_all

lemma nth_concat_pairs:
  assumes "\<And>x. length (f x) = 2" and "n < length xs"
  shows "concat (map f xs) ! (2 * n) = f (xs ! n) ! 0 \<and>
         concat (map f xs) ! (2 * n + 1) = f (xs ! n) ! 1"
  using assms(2)
proof (induction xs arbitrary: n)
  case Nil
  then show ?case by simp
next
  case (Cons a xs)
  have la: "length (f a) = 2" by (rule assms(1))
  show ?case
  proof (cases n)
    case 0
    then show ?thesis using la by (simp add: nth_append)
  next
    case (Suc m)
    then have "m < length xs" using Cons.prems by simp
    from Cons.IH[OF this] show ?thesis using la Suc by (simp add: nth_append)
  qed
qed





lemma lrintf_nearest: "\<bar>of_int (lrintf v) - v\<bar> \<le> 1 / 2"
  unfolding lrintf_def Let_def by (auto simp: abs_le_iff; linarith)

lemma lrintf_range:
  assumes "0 \<le> v" "v \<le> of_int K"
  shows "0 \<le> lrintf v \<and> lrintf v \<le> K"
proof -
  have f0: "0 \<le> \<lfloor>v\<rfloor>" using assms(1) by simp
  have fK: "\<lfloor>v\<rfloor> \<le> K" using assms(2) by (simp add: floor_le_iff)
  have "v - of_int \<lfloor>v\<rfloor> \<ge> 1 / 2 \<Longrightarrow> \<lfloor>v\<rfloor> + 1 \<le> K"
  proof -
    assume "v - of_int \<lfloor>v\<rfloor> \<ge> 1 / 2"
    then have "of_int \<lfloor>v\<rfloor> < v" by linarith
    then have "of_int \<lfloor>v\<rfloor> < (of_int K :: real)" using assms(2) by linarith
    then show ?thesis by simp
  qed
  then show ?thesis using f0 fK unfolding lrintf_def Let_def by auto
qed



subsection \<open>Index bounds\<close>

text \<open>
  Claim C2. Whenever the axis limit is at least 1, the four source indices that
  \<open>GetWeightsAndIndices\<close> returns lie in the closed interval from \<open>0\<close> to
  \<open>limit - 1\<close>, for every scale, mode, output coordinate and output size.
\<close>

theorem GetWeightsAndIndices_indices_in_range:
  assumes "1 \<le> limit"
    and "GetWeightsAndIndices K scale m out_loc out_size limit = Some (weights, indices)"
  shows "length indices = 4 \<and> set indices \<subseteq> {0 .. limit - 1}"
proof -
  have ix: "indices = GWI_indices scale m out_loc out_size limit"
    using assms(2) unfolding GetWeightsAndIndices_def Let_def
    by (auto split: if_splits bind_splits)
  show ?thesis
    unfolding ix GWI_indices_def Let_def using Bound_range[OF assms(1)] by simp
qed

theorem GetWeightsAndIndices_indices_in_range_witness:
  "(1::int) \<le> 4 \<and>
   GetWeightsAndIndices 4 (1 / 2) HALF_PIXEL 0 8 4
     = Some ([0, 0, 37 / 34, - (3 / 34)], [0, 0, 0, 1]) \<and>
   length [0, 0, 0, 1 :: int] = 4 \<and>
   set [0, 0, 0, 1 :: int] \<subseteq> {0 .. 4 - 1}"
proof -
  have h1: "(1::int) \<le> 4" by simp
  have h2: "GetWeightsAndIndices 4 (1 / 2) HALF_PIXEL 0 8 4
              = Some ([0, 0, 37 / 34, - (3 / 34)], [0, 0, 0, 1])"
    by code_simp
  from GetWeightsAndIndices_indices_in_range[OF h1 h2] h1 h2 show ?thesis by blast
qed

subsection \<open>The two weight branches\<close>








subsection \<open>Rounding to the nearest integer\<close>

lemma lrintf_nearest_all: "\<bar>of_int (lrintf v) - v\<bar> \<le> \<bar>of_int n - v\<bar>"
proof -
  have a: "\<bar>of_int (lrintf v) - v\<bar> \<le> 1 / 2" by (rule lrintf_nearest)
  show ?thesis
  proof (cases "n = lrintf v")
    case True
    then show ?thesis by simp
  next
    case False
    then have "1 \<le> \<bar>n - lrintf v\<bar>" by simp
    then have "(1::real) \<le> \<bar>of_int n - of_int (lrintf v)\<bar>"
      by (metis of_int_1 of_int_abs of_int_diff of_int_le_iff)
    with a show ?thesis by linarith
  qed
qed

lemma lrintf_round:
  "lrintf v = (if v - of_int \<lfloor>v\<rfloor> = 1 / 2 \<and> even \<lfloor>v\<rfloor> then \<lfloor>v\<rfloor> else round v)"
proof -
  have lt: "v - of_int \<lfloor>v\<rfloor> < 1 / 2 \<Longrightarrow> round v = \<lfloor>v\<rfloor>"
    unfolding round_def by linarith
  have ge: "1 / 2 \<le> v - of_int \<lfloor>v\<rfloor> \<Longrightarrow> round v = \<lfloor>v\<rfloor> + 1"
    unfolding round_def by linarith
  show ?thesis unfolding lrintf_def Let_def using lt ge by auto
qed

subsection \<open>The weights of the half-pixel mode\<close>







subsection \<open>The weight branch of the other modes\<close>



subsection \<open>The body of the loop nest\<close>









subsection \<open>The loop nest of the driver\<close>










subsection \<open>The CPU operator\<close>

lemma resolve_size_Inl:
  "(\<exists>msg. resolve_size ext size_arg more_inputs = Inl msg) \<longleftrightarrow>
     (\<not> (length size_arg = 2 \<and> size_arg ! 0 > 0 \<and> size_arg ! 1 > 0) \<and> length more_inputs = 0)"
proof -
  have "\<not> (1 + int (length more_inputs) \<ge> 2) \<longleftrightarrow> length more_inputs = 0"
    by (cases more_inputs) simp_all
  then show ?thesis unfolding resolve_size_def by auto
qed

text \<open>
  Claim C4. \<open>Run\<close> of the CPU operator ends in a failed check exactly when the rank of
  the input is not 4, or the static size is not a pair of two positive numbers and
  there is no second input. When it ends so, the output tensor is the one it was given:
  nothing has been written.
\<close>

theorem Run_CPU_validation_errors:
  "((\<exists>msg. fst (Run_CPU ext op input more_inputs output) = CheckFailed msg) \<longleftrightarrow>
      (length (shape input) \<noteq> 4 \<or>
       (\<not> (length (cpu_size op) = 2 \<and> cpu_size op ! 0 > 0 \<and> cpu_size op ! 1 > 0) \<and>
        length more_inputs = 0))) \<and>
   ((\<exists>msg. fst (Run_CPU ext op input more_inputs output) = CheckFailed msg) \<longrightarrow>
      snd (Run_CPU ext op input more_inputs output) = output)"
proof (cases "length (shape input) \<noteq> 4")
  case True
  then show ?thesis by (simp add: Run_CPU_def)
next
  case rank: False
  show ?thesis
  proof (cases "resolve_size ext (cpu_size op) more_inputs")
    case (Inl msg)
    then have "\<exists>msg. resolve_size ext (cpu_size op) more_inputs = Inl msg" by blast
    then have c: "\<not> (length (cpu_size op) = 2 \<and> cpu_size op ! 0 > 0 \<and> cpu_size op ! 1 > 0) \<and>
        length more_inputs = 0"
      unfolding resolve_size_Inl .
    have "Run_CPU ext op input more_inputs output = (CheckFailed msg, output)"
      using rank Inl by (simp add: Run_CPU_def Let_def)
    then show ?thesis using c by simp
  next
    case (Inr hw)
    then have "\<not> (\<exists>msg. resolve_size ext (cpu_size op) more_inputs = Inl msg)" by simp
    then have c: "\<not> (\<not> (length (cpu_size op) = 2 \<and> cpu_size op ! 0 > 0 \<and> cpu_size op ! 1 > 0) \<and>
        length more_inputs = 0)"
      unfolding resolve_size_Inl .
    have "\<forall>msg. fst (Run_CPU ext op input more_inputs output) \<noteq> CheckFailed msg"
      using rank Inr
      by (simp add: Run_CPU_def Let_def split: prod.split MaceStatus.split option.split)
    then show ?thesis using rank c by blast
  qed
qed

theorem Run_CPU_validation_errors_witness:
  "fst (Run_CPU (spec_externals 4)
     \<lparr>cpu_align_corners = False, cpu_coordinate_transformation_mode = NONE,
      cpu_size = [- 1, - 1]\<rparr>
     \<lparr>shape = [1, 1, 2, 2], data = [1, 2, 3, 4]\<rparr> [] \<lparr>shape = [7], data = [9]\<rparr>)
     = CheckFailed ''InputSize() >= 2'' \<and>
   snd (Run_CPU (spec_externals 4)
     \<lparr>cpu_align_corners = False, cpu_coordinate_transformation_mode = NONE,
      cpu_size = [- 1, - 1]\<rparr>
     \<lparr>shape = [1, 1, 2, 2], data = [1, 2, 3, 4]\<rparr> [] \<lparr>shape = [7], data = [9]\<rparr>)
     = \<lparr>shape = [7], data = [9]\<rparr>"
proof -
  let ?run = "Run_CPU (spec_externals 4)
     \<lparr>cpu_align_corners = False, cpu_coordinate_transformation_mode = NONE,
      cpu_size = [- 1, - 1]\<rparr>
     \<lparr>shape = [1, 1, 2, 2], data = [1, 2, 3, 4]\<rparr> [] \<lparr>shape = [7], data = [9]\<rparr>"
  have f: "fst ?run = CheckFailed ''InputSize() >= 2''"
    by (simp add: Run_CPU_def resolve_size_def)
  then have "\<exists>msg. fst ?run = CheckFailed msg" by blast
  with Run_CPU_validation_errors[of "spec_externals 4"
     "\<lparr>cpu_align_corners = False, cpu_coordinate_transformation_mode = NONE,
      cpu_size = [- 1, - 1]\<rparr>"
     "\<lparr>shape = [1, 1, 2, 2], data = [1, 2, 3, 4]\<rparr>" "[]" "\<lparr>shape = [7], data = [9]\<rparr>"]
  have "snd ?run = \<lparr>shape = [7], data = [9]\<rparr>" by blast
  with f show ?thesis by simp
qed

text \<open>
  Claim C1. For a 4-dimensional input whose resolved output height and width are the
  input height and width, \<open>Run\<close> of the CPU operator (once \<open>Resize\<close> of the output
  has succeeded, and with buffers of the size of the shape) returns success and leaves
  in the output buffer the input buffer itself, element for element. The result does
  not depend on the table size, the scales or the mode: the driver is not part of it.
\<close>

theorem Run_CPU_identity_copy:
  assumes rank: "length (shape input) = 4"
    and size: "resolve_size ext (cpu_size op) more_inputs = Inr (shape input ! 2, shape input ! 3)"
    and resize: "Resize ext [shape input ! 0, shape input ! 1, shape input ! 2, shape input ! 3]
                   output = (MACE_SUCCESS, output1)"
    and in_len: "int (length (data input))
                   = shape input ! 0 * shape input ! 1 * shape input ! 2 * shape input ! 3"
    and out_len: "length (data output1) = length (data input)"
  shows "Run_CPU ext op input more_inputs output
           = (Returned MACE_SUCCESS, output1\<lparr>data := data input\<rparr>)"
proof -
  have c: "std_copy (data input)
             (shape input ! 0 * shape input ! 1 * shape input ! 2 * shape input ! 3)
             (data output1) = Some (data input)"
    unfolding std_copy_def in_len[symmetric] using out_len by simp
  show ?thesis
    using rank size resize c by (simp add: Run_CPU_def Let_def)
qed

theorem Run_CPU_identity_copy_witness:
  "length (shape \<lparr>shape = [1, 1, 2, 2], data = [1, 2, 3, 4 :: float]\<rparr>) = 4 \<and>
   Run_CPU (spec_externals 4)
     \<lparr>cpu_align_corners = False, cpu_coordinate_transformation_mode = HALF_PIXEL,
      cpu_size = [2, 2]\<rparr>
     \<lparr>shape = [1, 1, 2, 2], data = [1, 2, 3, 4]\<rparr> [] \<lparr>shape = [], data = []\<rparr>
   = (Returned MACE_SUCCESS, \<lparr>shape = [1, 1, 2, 2], data = [1, 2, 3, 4]\<rparr>)"
proof -
  let ?input = "\<lparr>shape = [1, 1, 2, 2], data = [1, 2, 3, 4 :: float]\<rparr>"
  let ?op = "\<lparr>cpu_align_corners = False, cpu_coordinate_transformation_mode = HALF_PIXEL,
      cpu_size = [2, 2]\<rparr>"
  let ?out1 = "\<lparr>shape = [1, 1, 2, 2], data = replicate 4 (0 :: float)\<rparr>"
  have rank: "length (shape ?input) = 4" by simp
  have size: "resolve_size (spec_externals 4) (cpu_size ?op) []
                = Inr (shape ?input ! 2, shape ?input ! 3)"
    by (simp add: resolve_size_def)
  have resize: "Resize (spec_externals 4)
                  [shape ?input ! 0, shape ?input ! 1, shape ?input ! 2, shape ?input ! 3]
                  \<lparr>shape = [], data = []\<rparr> = (MACE_SUCCESS, ?out1)"
    by (simp add: spec_externals_def spec_Resize_def)
  have in_len: "int (length (data ?input))
                  = shape ?input ! 0 * shape ?input ! 1 * shape ?input ! 2 * shape ?input ! 3"
    by simp
  have out_len: "length (data ?out1) = length (data ?input)" by simp
  from Run_CPU_identity_copy[OF rank size resize in_len out_len] rank
  show ?thesis by simp
qed

subsection \<open>The GPU operator\<close>

text \<open>
  Claim C10. \<open>Run\<close> of the GPU operator has no identity fast path: once the rank is 4
  and the output size is resolved, its result is the result of the kernel's
  \<open>Compute\<close> on the input, the resolved sizes and the output, whatever the sizes
  are. The operator copies nothing itself: with a kernel that writes nothing, the
  output stays as it was, also when the output sizes are the input sizes.
\<close>

theorem Run_GPU_delegates:
  assumes "length (shape input) = 4"
    and "resolve_size ext (gpu_size op) more_inputs = Inr (out_height, out_width)"
  shows "Run_GPU ext op input more_inputs output
           = gpu_kernel op input out_height out_width output"
  using assms by (simp add: Run_GPU_def)

theorem Run_GPU_delegates_witness:
  "length (shape \<lparr>shape = [1, 1, 2, 2], data = [1, 2, 3, 4 :: float]\<rparr>) = 4 \<and>
   resolve_size (spec_externals 4) [2, 2] [] = Inr (2, 2) \<and>
   Run_GPU (spec_externals 4)
     \<lparr>gpu_kernel = (\<lambda>input out_height out_width output. (Returned MACE_SUCCESS, output)),
      gpu_size = [2, 2]\<rparr>
     \<lparr>shape = [1, 1, 2, 2], data = [1, 2, 3, 4]\<rparr> [] \<lparr>shape = [7], data = [9]\<rparr>
   = (Returned MACE_SUCCESS, \<lparr>shape = [7], data = [9]\<rparr>)"
proof -
  let ?input = "\<lparr>shape = [1, 1, 2, 2], data = [1, 2, 3, 4 :: float]\<rparr>"
  let ?op = "\<lparr>gpu_kernel = (\<lambda>input out_height out_width output.
                 (Returned MACE_SUCCESS, output :: float Tensor)) :: float Tensor \<Rightarrow> _,
      gpu_size = [2, 2]\<rparr>"
  have rank: "length (shape ?input) = 4" by simp
  have size: "resolve_size (spec_externals 4) (gpu_size ?op) [] = Inr (2, 2)"
    by (simp add: resolve_size_def)
  from Run_GPU_delegates[OF rank size, of "\<lparr>shape = [7], data = [9]\<rparr>"] rank size
  show ?thesis by simp
qed

section \<open>Properties in single precision\<close>

subsection \<open>Powers of two and the binary exponent\<close>

lemma pow2_mono: "a \<le> b \<Longrightarrow> (2::real) powi a \<le> 2 powi b"
  by (rule power_int_increasing) simp_all

lemma pow2_strict_mono: "a < b \<Longrightarrow> (2::real) powi a < 2 powi b"
  by (rule power_int_strict_increasing) simp_all

lemma pow2_add: "(2::real) powi (a + b) = 2 powi a * 2 powi b"
  by (rule power_int_add) simp

lemma pow2_nat: "0 \<le> k \<Longrightarrow> (2::real) powi k = of_int (2 ^ nat k)"
  by (simp add: power_int_def)

lemma ilog2_bounds:
  assumes "0 < x"
  shows "2 powi (ilog2 x) \<le> x \<and> x < 2 powi (ilog2 x + 1)"
proof (cases "1 \<le> x")
  case True
  then have n: "0 < \<lfloor>x\<rfloor>" by simp
  from bitlen_bounds[OF n] have b: "2 ^ nat (bitlen \<lfloor>x\<rfloor> - 1) \<le> \<lfloor>x\<rfloor>"
    "\<lfloor>x\<rfloor> < 2 ^ nat (bitlen \<lfloor>x\<rfloor>)" by simp_all
  have k: "1 \<le> bitlen \<lfloor>x\<rfloor>" using n by (simp add: bitlen_alt_def)
  have e: "ilog2 x = bitlen \<lfloor>x\<rfloor> - 1" using True by (simp add: ilog2_def)
  have "(2::real) powi (bitlen \<lfloor>x\<rfloor> - 1) = of_int (2 ^ nat (bitlen \<lfloor>x\<rfloor> - 1))"
    using k by (simp add: pow2_nat)
  also have "\<dots> \<le> of_int \<lfloor>x\<rfloor>" using b(1) by (simp only: of_int_le_iff)
  also have "\<dots> \<le> x" by simp
  finally have lo: "2 powi (ilog2 x) \<le> x" unfolding e .
  have "\<lfloor>x\<rfloor> + 1 \<le> 2 ^ nat (bitlen \<lfloor>x\<rfloor>)" using b(2) by simp
  then have "of_int (\<lfloor>x\<rfloor> + 1) \<le> (of_int (2 ^ nat (bitlen \<lfloor>x\<rfloor>)) :: real)"
    by (simp only: of_int_le_iff)
  moreover have "x < of_int (\<lfloor>x\<rfloor> + 1)" by linarith
  moreover have "(2::real) powi (bitlen \<lfloor>x\<rfloor> - 1 + 1) = of_int (2 ^ nat (bitlen \<lfloor>x\<rfloor>))"
    using k by (simp add: pow2_nat)
  ultimately have "x < 2 powi (ilog2 x + 1)" unfolding e by linarith
  with lo show ?thesis ..
next
  case False
  define y where "y = 1 / x"
  define k where "k = bitlen \<lfloor>y\<rfloor> - 1"
  have y1: "1 < y" using False assms by (simp add: y_def)
  then have n: "0 < \<lfloor>y\<rfloor>" by simp
  from bitlen_bounds[OF n] have b: "2 ^ nat (bitlen \<lfloor>y\<rfloor> - 1) \<le> \<lfloor>y\<rfloor>"
    "\<lfloor>y\<rfloor> < 2 ^ nat (bitlen \<lfloor>y\<rfloor>)" by simp_all
  have k1: "1 \<le> bitlen \<lfloor>y\<rfloor>" using n by (simp add: bitlen_alt_def)
  then have k0: "0 \<le> k" by (simp add: k_def)
  have lo: "2 ^ nat k \<le> y"
    using b(1) unfolding k_def by (simp add: le_floor_iff)
  have sk: "nat (bitlen \<lfloor>y\<rfloor>) = Suc (nat k)" using k1 by (simp add: k_def)
  have "\<lfloor>y\<rfloor> < 2 * 2 ^ nat k" using b(2) unfolding sk by simp
  then have hi: "y < 2 * 2 ^ nat k" by (simp add: floor_less_iff)
  have x: "x = 1 / y" using assms by (simp add: y_def)
  have xl: "x \<le> 1 / 2 ^ nat k" unfolding x using lo y1
    by (simp add: frac_le)
  have xh: "1 / (2 * 2 ^ nat k) < x" unfolding x using hi y1
    by (simp add: frac_less2)
  have pk: "(2::real) powi (- k) = 1 / 2 ^ nat k" using k0
    by (simp add: power_int_def field_simps)
  have pk1: "(2::real) powi (- k - 1) = 1 / (2 * 2 ^ nat k)" using k0
    by (simp add: power_int_def field_simps nat_add_distrib)
  have pk2: "(2::real) powi (- k + 1) = 2 / 2 ^ nat k"
    using pow2_add[of "- k" 1] pk by simp
  show ?thesis
  proof (cases "x * 2 ^ nat k = 1")
    case True
    then have xe: "x = 1 / 2 ^ nat k" by (simp add: field_simps)
    have e: "ilog2 x = - k" using False True by (simp add: ilog2_def Let_def y_def k_def)
    have "2 powi (- k) \<le> x \<and> x < 2 powi (- k + 1)" unfolding pk pk2 xe
      by (simp add: divide_strict_right_mono)
    then show ?thesis unfolding e .
  next
    case ne: False
    then have "x \<noteq> 1 / 2 ^ nat k" by (auto simp: field_simps)
    with xl have xl': "x < 1 / 2 ^ nat k" by simp
    have e: "ilog2 x = - k - 1" using False ne by (simp add: ilog2_def Let_def y_def k_def)
    have "(2::real) powi (- k - 1 + 1) = 1 / 2 ^ nat k" using pk by simp
    then have "2 powi (- k - 1) \<le> x \<and> x < 2 powi (- k - 1 + 1)"
      unfolding pk1 using xh xl' by simp
    then show ?thesis unfolding e .
  qed
qed

lemma ilog2_unique:
  assumes "2 powi a \<le> x" and "x < 2 powi (a + 1)"
  shows "ilog2 x = a"
proof -
  have "0 < (2::real) powi a" by simp
  then have x0: "0 < x" using assms(1) by linarith
  from ilog2_bounds[OF x0] have b: "2 powi (ilog2 x) \<le> x" "x < 2 powi (ilog2 x + 1)" by simp_all
  have "\<not> ilog2 x < a"
  proof
    assume "ilog2 x < a"
    then have "ilog2 x + 1 \<le> a" by simp
    from pow2_mono[OF this] b(2) assms(1) show False by linarith
  qed
  moreover have "\<not> a < ilog2 x"
  proof
    assume "a < ilog2 x"
    then have "a + 1 \<le> ilog2 x" by simp
    from pow2_mono[OF this] b(1) assms(2) show False by linarith
  qed
  ultimately show ?thesis by simp
qed

subsection \<open>The rounding\<close>

lemma lrintf_floor_ceiling: "\<lfloor>v\<rfloor> \<le> lrintf v \<and> lrintf v \<le> \<lceil>v\<rceil>"
proof -
  have "1 / 2 \<le> v - of_int \<lfloor>v\<rfloor> \<Longrightarrow> \<lfloor>v\<rfloor> + 1 \<le> \<lceil>v\<rceil>"
  proof -
    assume "1 / 2 \<le> v - of_int \<lfloor>v\<rfloor>"
    then have "of_int \<lfloor>v\<rfloor> < v" by linarith
    then have "\<lfloor>v\<rfloor> < \<lceil>v\<rceil>" by (simp only: less_ceiling_iff)
    then show ?thesis by linarith
  qed
  then show ?thesis unfolding lrintf_def Let_def by (auto simp: floor_le_ceiling)
qed

lemma lrintf_of_int: "lrintf (of_int n) = n"
  by (simp add: lrintf_def)

lemma lrintf_le: "v \<le> of_int n \<Longrightarrow> lrintf v \<le> n"
proof -
  assume "v \<le> of_int n"
  then have "\<lceil>v\<rceil> \<le> n" by (simp only: ceiling_le_iff)
  then show ?thesis using lrintf_floor_ceiling[of v] by linarith
qed

lemma lrintf_ge: "of_int n \<le> v \<Longrightarrow> n \<le> lrintf v"
proof -
  assume "of_int n \<le> v"
  then have "n \<le> \<lfloor>v\<rfloor>" by (simp only: le_floor_iff)
  then show ?thesis using lrintf_floor_ceiling[of v] by linarith
qed

lemma lrintf_abs_le: "\<bar>v\<bar> \<le> of_int n \<Longrightarrow> \<bar>lrintf v\<bar> \<le> n"
proof -
  assume a: "\<bar>v\<bar> \<le> of_int n"
  then have "v \<le> of_int n" "of_int (- n) \<le> v" by simp_all
  from lrintf_le[OF this(1)] lrintf_ge[OF this(2)] show ?thesis by simp
qed

lemma f32_eq:
  "x \<noteq> 0 \<Longrightarrow> f32 x = of_int (lrintf (x / 2 powi (f32_exp x - 23))) * 2 powi (f32_exp x - 23)"
  by (simp add: f32_def round_to_def f32_exp_def Let_def)

lemma f32_0: "f32 0 = 0"
  by (simp add: f32_def round_to_def)

lemma f32_exp_ge: "- 126 \<le> f32_exp x"
  by (simp add: f32_exp_def)

lemma abs_lt_pow2_f32_exp:
  assumes "x \<noteq> 0"
  shows "\<bar>x\<bar> < 2 powi (f32_exp x + 1)"
proof -
  have "\<bar>x\<bar> < 2 powi (ilog2 \<bar>x\<bar> + 1)" using ilog2_bounds[of "\<bar>x\<bar>"] assms by simp
  also have "\<dots> \<le> 2 powi (f32_exp x + 1)" by (rule pow2_mono) (simp add: f32_exp_def)
  finally show ?thesis .
qed

lemma f32_mantissa_bound:
  assumes "x \<noteq> 0"
  shows "\<bar>lrintf (x / 2 powi (f32_exp x - 23))\<bar> \<le> 2 ^ 24"
proof -
  have q: "0 < (2::real) powi (f32_exp x - 23)" by simp
  have "(2::real) powi (f32_exp x + 1) = 2 powi (f32_exp x - 23 + 24)"
    by (rule arg_cong[where f = "\<lambda>k. 2 powi k"]) simp
  also have "\<dots> = 2 powi (f32_exp x - 23) * 2 powi 24" by (rule pow2_add)
  finally have "(2::real) powi (f32_exp x + 1) = 2 powi (f32_exp x - 23) * 2 powi 24" .
  then have "\<bar>x\<bar> < 2 powi (f32_exp x - 23) * 2 ^ 24"
    using abs_lt_pow2_f32_exp[OF assms] by simp
  then have "\<bar>x\<bar> / 2 powi (f32_exp x - 23) < 2 ^ 24"
    using q by (simp add: field_simps)
  then have "\<bar>x / 2 powi (f32_exp x - 23)\<bar> \<le> of_int (2 ^ 24)"
    by simp
  from lrintf_abs_le[OF this] show ?thesis .
qed

text \<open>A number \<open>m * 2 powi (e - 23)\<close> with \<open>\<bar>m\<bar> \<le> 2 ^ 24\<close> and \<open>- 126 \<le> e\<close> is a
  single-precision number: the rounding leaves it as it is.\<close>

lemma f32_fix:
  assumes y: "y = of_int m * 2 powi (e - 23)" and m: "\<bar>m\<bar> \<le> 2 ^ 24" and e: "- 126 \<le> e"
  shows "f32 y = y"
proof (cases "m = 0")
  case True
  then show ?thesis using y by (simp add: f32_0)
next
  case False
  define P where "P = (2::real) powi (e - 23)"
  define E where "E = f32_exp y"
  define Q where "Q = (2::real) powi (E - 23)"
  have yP: "y = of_int m * P" using y by (simp add: P_def)
  have P0: "0 < P" and Q0: "0 < Q" by (simp_all add: P_def Q_def)
  have y0: "y \<noteq> 0" using False yP P0 by simp
  have fy: "f32 y = of_int (lrintf (y / Q)) * Q"
    using f32_eq[OF y0] by (simp add: Q_def E_def)
  have ay: "\<bar>y\<bar> = of_int \<bar>m\<bar> * P" unfolding yP using P0 by (simp add: abs_mult)
  have "(2::real) powi (e + 1) = 2 powi (24 + (e - 23))"
    by (rule arg_cong[where f = "\<lambda>k. 2 powi k"]) simp
  also have "\<dots> = 2 powi 24 * 2 powi (e - 23)" by (rule pow2_add)
  finally have p24: "(2::real) powi (e + 1) = 2 ^ 24 * P" by (simp add: P_def)
  show ?thesis
  proof (cases "\<bar>m\<bar> < 2 ^ 24")
    case True
    then have "(of_int \<bar>m\<bar> :: real) < 2 ^ 24" by (metis of_int_less_numeral_power_cancel_iff)
    then have "\<bar>y\<bar> < 2 powi (e + 1)" unfolding ay p24 using P0 by simp
    moreover have "2 powi (ilog2 \<bar>y\<bar>) \<le> \<bar>y\<bar>" using ilog2_bounds[of "\<bar>y\<bar>"] y0 by simp
    ultimately have "(2::real) powi (ilog2 \<bar>y\<bar>) < 2 powi (e + 1)" by linarith
    then have "ilog2 \<bar>y\<bar> < e + 1"
      by (meson not_le pow2_mono leD)
    then have Ee: "E \<le> e" using e by (simp add: f32_exp_def E_def)
    define d where "d = e - E"
    have d0: "0 \<le> d" using Ee by (simp add: d_def)
    have "(2::real) powi (e - 23) = 2 powi (d + (E - 23))"
      by (rule arg_cong[where f = "\<lambda>k. 2 powi k"]) (simp add: d_def)
    also have "\<dots> = 2 powi d * 2 powi (E - 23)" by (rule pow2_add)
    also have "\<dots> = of_int (2 ^ nat d) * Q" using d0 by (simp add: pow2_nat Q_def)
    finally have PQ: "P = of_int (2 ^ nat d) * Q" by (simp add: P_def)
    have "y / Q = of_int (m * 2 ^ nat d)" unfolding yP PQ using Q0 by simp
    then have "lrintf (y / Q) = m * 2 ^ nat d" by (simp only: lrintf_of_int)
    then have "f32 y = of_int (m * 2 ^ nat d) * Q" using fy by simp
    also have "\<dots> = y" unfolding yP PQ by simp
    finally show ?thesis .
  next
    case False
    with m have am: "\<bar>m\<bar> = 2 ^ 24" by simp
    then have ay2: "\<bar>y\<bar> = 2 powi (e + 1)" unfolding ay p24 by simp
    have "\<bar>y\<bar> < 2 powi (e + 1 + 1)" unfolding ay2 by (rule pow2_strict_mono) simp
    with ay2 have "ilog2 \<bar>y\<bar> = e + 1" by (intro ilog2_unique) simp_all
    then have Ee: "E = e + 1" using e by (simp add: f32_exp_def E_def)
    from am have "\<bar>m\<bar> = 16777216" by simp
    then have "m = 16777216 \<or> m = - 16777216" by linarith
    then have ev: "m = 2 * (m div 2)" by auto
    have "(2::real) powi (E - 23) = 2 powi (1 + (e - 23))"
      by (rule arg_cong[where f = "\<lambda>k. 2 powi k"]) (simp add: Ee)
    also have "\<dots> = 2 powi 1 * 2 powi (e - 23)" by (rule pow2_add)
    finally have q: "Q = 2 * P" by (simp add: P_def Q_def)
    have "y / Q = of_int m / 2" unfolding q yP using P0 by simp
    also have "\<dots> = of_int (m div 2)" by (subst ev) simp
    finally have "lrintf (y / Q) = m div 2"
      by (simp only: lrintf_of_int)
    then have "f32 y = of_int (m div 2) * (2 * P)"
      using fy q by simp
    also have "\<dots> = of_int (2 * (m div 2)) * P" by simp
    also have "\<dots> = y" unfolding yP using ev by simp
    finally show ?thesis .
  qed
qed

lemma f32_repr:
  "\<exists>m e. f32 x = of_int m * 2 powi (e - 23) \<and> \<bar>m\<bar> \<le> 2 ^ 24 \<and> - 126 \<le> e"
proof (cases "x = 0")
  case True
  have "f32 x = of_int 0 * 2 powi (0 - 23)" using True by (simp add: f32_0)
  then show ?thesis by (metis abs_zero zero_le_numeral zero_le_power neg_numeral_le_zero)
next
  case False
  from f32_eq[OF False] f32_mantissa_bound[OF False] f32_exp_ge[of x] show ?thesis by blast
qed

lemma f32_idem: "f32 (f32 x) = f32 x"
  using f32_repr[of x] f32_fix by blast

lemma f32_of_int:
  assumes "\<bar>n\<bar> \<le> 2 ^ 24"
  shows "f32 (of_int n) = of_int n"
  by (rule f32_fix[of _ n 23]) (use assms in simp_all)

lemma f32_floor: "f32 (of_int \<lfloor>f32 x\<rfloor>) = of_int \<lfloor>f32 x\<rfloor>"
proof -
  obtain m e where y: "f32 x = of_int m * 2 powi (e - 23)" and m: "\<bar>m\<bar> \<le> 2 ^ 24"
      and e: "- 126 \<le> e"
    using f32_repr[of x] by blast
  show ?thesis
  proof (cases "23 \<le> e")
    case True
    then have ex: "f32 x = of_int (m * 2 ^ nat (e - 23))" unfolding y by (simp add: pow2_nat)
    have "\<lfloor>f32 x\<rfloor> = m * 2 ^ nat (e - 23)" unfolding ex by (rule floor_of_int)
    then have fl: "of_int \<lfloor>f32 x\<rfloor> = f32 x" using ex by (simp only:)
    show ?thesis unfolding fl by (rule f32_idem)
  next
    case False
    then have "e - 23 \<le> - 1" by simp
    from pow2_mono[OF this] have q: "(2::real) powi (e - 23) \<le> 1 / 2" by simp
    have "\<bar>f32 x\<bar> = of_int \<bar>m\<bar> * 2 powi (e - 23)" unfolding y by (simp add: abs_mult)
    also have "\<dots> \<le> 2 ^ 24 * (1 / 2)"
    proof (rule mult_mono)
      show "(of_int \<bar>m\<bar> :: real) \<le> 2 ^ 24" using m by (metis of_int_le_numeral_power_cancel_iff)
    qed (use q in simp_all)
    finally have b: "\<bar>f32 x\<bar> \<le> 2 ^ 23" by simp
    then have "f32 x \<le> of_int (2 ^ 23)" "of_int (- (2 ^ 23)) \<le> f32 x" by simp_all
    then have "\<lfloor>f32 x\<rfloor> \<le> \<lfloor>of_int (2 ^ 23) :: real\<rfloor>"
        "\<lfloor>of_int (- (2 ^ 23)) :: real\<rfloor> \<le> \<lfloor>f32 x\<rfloor>"
      by (simp_all only: floor_mono)
    then have "\<lfloor>f32 x\<rfloor> \<le> 2 ^ 23" "- (2 ^ 23) \<le> \<lfloor>f32 x\<rfloor>"
      by (simp_all only: floor_of_int)
    then have "\<bar>\<lfloor>f32 x\<rfloor>\<bar> \<le> 2 ^ 23" by (rule_tac abs_leI) linarith+
    also have "(2::int) ^ 23 \<le> 2 ^ 24" by simp
    finally show ?thesis by (rule f32_of_int)
  qed
qed

lemma f32_nonneg: "0 \<le> x \<Longrightarrow> 0 \<le> f32 x"
proof (cases "x = 0")
  case True
  then show ?thesis by (simp add: f32_0)
next
  case False
  assume "0 \<le> x"
  then have "of_int 0 \<le> x / 2 powi (f32_exp x - 23)" by simp
  from lrintf_ge[OF this] show ?thesis unfolding f32_eq[OF False] by simp
qed

lemma f32_le_int:
  assumes "0 \<le> x" and "x \<le> of_int n" and "n < 2 ^ 24"
  shows "f32 x \<le> of_int n"
proof (cases "x = 0")
  case True
  then show ?thesis using assms by (simp add: f32_0)
next
  case False
  then have x0: "0 < x" using assms(1) by simp
  have "2 powi (ilog2 x) \<le> x" using ilog2_bounds[OF x0] by simp
  also have "x \<le> of_int n" by (rule assms(2))
  also have "(of_int n :: real) < 2 powi 24" using assms(3)
    by simp
  finally have "ilog2 x < 24" by (meson not_le pow2_mono leD)
  then have E: "f32_exp x \<le> 23" using x0 by (simp add: f32_exp_def)
  define d where "d = 23 - f32_exp x"
  have d0: "0 \<le> d" using E by (simp add: d_def)
  have inv: "2 powi d * (2::real) powi (f32_exp x - 23) = 1"
    using pow2_add[of d "f32_exp x - 23"] by (simp add: d_def)
  then have "1 / (2::real) powi (f32_exp x - 23) = 2 powi d"
    by (simp add: field_simps)
  then have "x / 2 powi (f32_exp x - 23) = x * 2 powi d" by (simp add: field_simps)
  also have "\<dots> \<le> of_int n * 2 powi d" using assms(2) by (simp add: mult_right_mono)
  also have "\<dots> = of_int (n * 2 ^ nat d)" using d0 by (simp add: pow2_nat)
  finally have "lrintf (x / 2 powi (f32_exp x - 23)) \<le> n * 2 ^ nat d" by (rule lrintf_le)
  then have "(of_int (lrintf (x / 2 powi (f32_exp x - 23))) :: real) \<le> of_int (n * 2 ^ nat d)"
    by (simp only: of_int_le_iff)
  then have "f32 x \<le> of_int (n * 2 ^ nat d) * 2 powi (f32_exp x - 23)"
    unfolding f32_eq[OF False] by (simp add: mult_right_mono)
  also have "\<dots> = of_int n * (2 powi d * 2 powi (f32_exp x - 23))"
    using d0 by (simp add: pow2_nat)
  also have "\<dots> = of_int n" unfolding inv by simp
  finally show ?thesis .
qed

subsection \<open>The coefficient table and the sample locator\<close>

lemma length_coeff_entries_f32: "length (coeff_entries_f32 K A i) = 2"
  by (simp add: coeff_entries_f32_def Let_def)

lemma length_InitCoeffsTable_f32:
  "0 \<le> K \<Longrightarrow> int (length (InitCoeffsTable_f32 K A)) = 2 * (K + 1)"
  by (simp add: InitCoeffsTable_f32_def length_concat_pairs[OF length_coeff_entries_f32])

lemma InitCoeffsTable_f32_nth:
  assumes "0 \<le> i" "i \<le> K"
  shows "InitCoeffsTable_f32 K A ! nat (i * 2) = coeff_entries_f32 K A i ! 0"
    and "InitCoeffsTable_f32 K A ! nat (i * 2 + 1) = coeff_entries_f32 K A i ! 1"
proof -
  have n: "nat i < length [0..K]" using assms by simp
  have e: "[0..K] ! nat i = i" using assms by simp
  have a: "nat (i * 2) = 2 * nat i" "nat (i * 2 + 1) = 2 * nat i + 1"
    using assms by (simp_all add: nat_mult_distrib nat_add_distrib)
  from nth_concat_pairs[of "coeff_entries_f32 K A" "nat i" "[0..K]",
      OF length_coeff_entries_f32 n]
  show "InitCoeffsTable_f32 K A ! nat (i * 2) = coeff_entries_f32 K A i ! 0"
    and "InitCoeffsTable_f32 K A ! nat (i * 2 + 1) = coeff_entries_f32 K A i ! 1"
    unfolding InitCoeffsTable_f32_def a e by simp_all
qed

lemma buf_read_InitCoeffsTable_f32:
  assumes "0 \<le> i" "i \<le> K"
  shows "buf_read (InitCoeffsTable_f32 K A) (i * 2) = Some (coeff_entries_f32 K A i ! 0)"
    and "buf_read (InitCoeffsTable_f32 K A) (i * 2 + 1) = Some (coeff_entries_f32 K A i ! 1)"
  using assms length_InitCoeffsTable_f32[of K A] InitCoeffsTable_f32_nth[OF assms, of A]
  by (simp_all add: buf_read_def)

lemma idx_Some: "fits_index_t v \<Longrightarrow> idx v = Some v"
  by (simp add: idx_def)

lemma fits_index_t_small: "- (2 ^ 26) \<le> v \<Longrightarrow> v \<le> 2 ^ 26 \<Longrightarrow> fits_index_t v"
  by (simp add: fits_index_t_def)

lemma fits_index_t_between:
  "fits_index_t a \<Longrightarrow> fits_index_t b \<Longrightarrow> a \<le> v \<Longrightarrow> v \<le> b \<Longrightarrow> fits_index_t v"
  by (simp add: fits_index_t_def)

lemma tab_read_InitCoeffsTable_f32:
  assumes "0 \<le> i" "i \<le> K" "K < 2 ^ 24"
  shows "tab_read (InitCoeffsTable_f32 K A) (i * 2) = Some (coeff_entries_f32 K A i ! 0)"
    and "tab_read (InitCoeffsTable_f32 K A) (i * 2 + 1) = Some (coeff_entries_f32 K A i ! 1)"
proof -
  have "fits_index_t (i * 2)" "fits_index_t (i * 2 + 1)"
    using assms by (simp_all add: fits_index_t_def)
  then show "tab_read (InitCoeffsTable_f32 K A) (i * 2) = Some (coeff_entries_f32 K A i ! 0)"
    and "tab_read (InitCoeffsTable_f32 K A) (i * 2 + 1) = Some (coeff_entries_f32 K A i ! 1)"
    unfolding tab_read_def by (simp_all add: idx_Some buf_read_InitCoeffsTable_f32[OF assms(1,2)])
qed

lemma GWI_result_f32_other:
  assumes "0 \<le> offset" "offset \<le> K" "K < 2 ^ 24" and "m \<noteq> HALF_PIXEL"
    and "fits_index_t (limit - 1)" "fits_index_t (in_loc - 1)" "fits_index_t (in_loc + 2)"
  shows "GWI_result_f32 K m limit in_loc offset =
     Some ([coeff_entries_f32 K (- 0.75) offset ! 1, coeff_entries_f32 K (- 0.75) offset ! 0,
            coeff_entries_f32 K (- 0.75) (K - offset) ! 0,
            coeff_entries_f32 K (- 0.75) (K - offset) ! 1],
           [Bound (in_loc - 1) limit, Bound in_loc limit,
            Bound (in_loc + 1) limit, Bound (in_loc + 2) limit])"
proof -
  have k: "0 \<le> K - offset" "K - offset \<le> K" using assms by simp_all
  have f: "fits_index_t (in_loc + 1)"
    by (rule fits_index_t_between[OF assms(6,7)]) simp_all
  show ?thesis
    unfolding GWI_result_f32_def GetCoeffsTable_f32_def if_False
      tab_read_InitCoeffsTable_f32[OF assms(1,2,3)] tab_read_InitCoeffsTable_f32[OF k assms(3)]
      idx_Some[OF assms(5)] idx_Some[OF assms(6)] idx_Some[OF assms(7)] idx_Some[OF f]
    using assms(4) by simp
qed

lemma GWI_result_f32_half_pixel:
  assumes "0 \<le> offset" "offset \<le> K" "K < 2 ^ 24"
    and "fits_index_t (limit - 1)" "fits_index_t (in_loc - 1)" "fits_index_t (in_loc + 2)"
  shows "GWI_result_f32 K HALF_PIXEL limit in_loc offset =
     Some (normalize_weights_f32
        [if Bound (in_loc - 1) limit = in_loc - 1
         then coeff_entries_f32 K (- 0.5) offset ! 1 else 0,
         if Bound in_loc limit = in_loc
         then coeff_entries_f32 K (- 0.5) offset ! 0 else 0,
         if Bound (in_loc + 1) limit = in_loc + 1
         then coeff_entries_f32 K (- 0.5) (K - offset) ! 0 else 0,
         if Bound (in_loc + 2) limit = in_loc + 2
         then coeff_entries_f32 K (- 0.5) (K - offset) ! 1 else 0],
       [Bound (in_loc - 1) limit, Bound in_loc limit,
        Bound (in_loc + 1) limit, Bound (in_loc + 2) limit])"
proof -
  have k: "0 \<le> K - offset" "K - offset \<le> K" using assms by simp_all
  have f: "fits_index_t (in_loc + 1)"
    by (rule fits_index_t_between[OF assms(5,6)]) simp_all
  show ?thesis
    unfolding GWI_result_f32_def GetCoeffsTable_f32_def if_True
      tab_read_InitCoeffsTable_f32[OF assms(1,2,3)] tab_read_InitCoeffsTable_f32[OF k assms(3)]
      idx_Some[OF assms(4)] idx_Some[OF assms(5)] idx_Some[OF assms(6)] idx_Some[OF f]
    by simp
qed

lemma GWI_in_f32_repr:
  "f32 (GWI_in_f32 scale m out_loc out_size) = GWI_in_f32 scale m out_loc out_size"
  by (simp add: GWI_in_f32_def f32_idem f32_0)

lemma float_of_index_small: "\<bar>n\<bar> \<le> 2 ^ 24 \<Longrightarrow> float_of_index n = of_int n"
  unfolding float_of_index_def by (rule f32_of_int)

lemma float_of_index_floor:
  assumes "f32 x = x"
  shows "float_of_index \<lfloor>x\<rfloor> = of_int \<lfloor>x\<rfloor>"
  unfolding float_of_index_def using f32_floor[of x] unfolding assms .

lemma offset_range_f32:
  assumes "f32 in_f = in_f" and "0 < K" "K < 2 ^ 24"
  shows "0 \<le> lrintf (f32 (f32 (in_f - float_of_index \<lfloor>in_f\<rfloor>) * float_of_index K)) \<and>
         lrintf (f32 (f32 (in_f - float_of_index \<lfloor>in_f\<rfloor>) * float_of_index K)) \<le> K"
proof -
  define delta where "delta = f32 (in_f - of_int \<lfloor>in_f\<rfloor>)"
  have d0: "0 \<le> in_f - of_int \<lfloor>in_f\<rfloor>" and d1: "in_f - of_int \<lfloor>in_f\<rfloor> \<le> of_int 1"
    by simp_all linarith
  have e0: "0 \<le> delta" unfolding delta_def by (rule f32_nonneg[OF d0])
  have e1: "delta \<le> 1" unfolding delta_def using f32_le_int[OF d0 d1] by simp
  have K: "float_of_index K = of_int K" by (rule float_of_index_small) (use assms in simp)
  have k: "0 \<le> (of_int K :: real)" using assms by simp
  have p0: "0 \<le> delta * of_int K" using e0 k by simp
  have p1: "delta * of_int K \<le> of_int K" using e0 e1 k by (simp add: mult_left_le_one_le)
  have v0: "0 \<le> f32 (delta * of_int K)" by (rule f32_nonneg[OF p0])
  have v1: "f32 (delta * of_int K) \<le> of_int K" by (rule f32_le_int[OF p0 p1 assms(3)])
  show ?thesis
    unfolding float_of_index_floor[OF assms(1)] K delta_def[symmetric]
    by (rule lrintf_range[OF v0 v1])
qed

lemma GWI_from_in_f32_eq:
  assumes "f32 in_f = in_f" and "0 < K" "K < 2 ^ 24"
    and "fits_index_t (\<lfloor>in_f\<rfloor> - 1)" "fits_index_t (\<lfloor>in_f\<rfloor> + 2)"
  shows "GWI_from_in_f32 K m limit in_f =
         GWI_result_f32 K m limit \<lfloor>in_f\<rfloor>
           (lrintf (f32 (f32 (in_f - float_of_index \<lfloor>in_f\<rfloor>) * float_of_index K)))"
proof -
  have f: "fits_index_t \<lfloor>in_f\<rfloor>"
    by (rule fits_index_t_between[OF assms(4,5)]) simp_all
  have "fits_index_t (lrintf (f32 (f32 (in_f - float_of_index \<lfloor>in_f\<rfloor>) * float_of_index K)))"
    using offset_range_f32[OF assms(1,2,3)] assms(3) by (intro fits_index_t_small) simp_all
  then show ?thesis
    unfolding GWI_from_in_f32_def Let_def by (simp add: idx_Some f)
qed

subsection \<open>Values at some inputs\<close>

text \<open>The examples below take the table resolution \<open>1024\<close>.\<close>

lemma coeff_entries_f32_examples:
  "coeff_entries_f32 1024 (- (3 / 4)) 0 = [1, 0]"
  "coeff_entries_f32 1024 (- (3 / 4)) 1024 = [0, 0]"
  "coeff_entries_f32 1024 (- (3 / 4)) 1 = [4194295 / 4194304, - (1533 / 2097152)]"
  "coeff_entries_f32 1024 (- (3 / 4)) 1023 = [1539 / 2097152, - (5 / 4194304)]"
  "coeff_entries_f32 1024 (- (3 / 4)) 146 = [502207 / 524288, - (164867 / 2097152)]"
  "coeff_entries_f32 1024 (- (3 / 4)) 878 = [140303 / 1048576, - (27415 / 2097152)]"
  "coeff_entries_f32 1024 (- (1 / 2)) 768 = [29 / 128, - (3 / 128)]"
  "coeff_entries_f32 1024 (- (1 / 2)) 256 = [111 / 128, - (9 / 128)]"
  by code_simp+

lemma GWI_in_f32_examples:
  "GWI_in_f32 (9586981 / 16777216) NONE 2 7 = 9586981 / 8388608"
  "GWI_in_f32 (1 / 2048) NONE 1 8 = 1 / 2048"
  "GWI_in_f32 (2 ^ 64) NONE 1 2 = 2 ^ 64"
  by code_simp+

lemma offset_examples:
  "lrintf (f32 (f32 (9586981 / 8388608 - float_of_index 1) * float_of_index 1024)) = 146"
  "f32 (f32 (1 / 2048 - float_of_index 0) * float_of_index 1024) = 1 / 2"
  by code_simp+

lemma GWI_result_f32_examples:
  "GWI_result_f32 1024 NONE 2 0 0 = Some ([0, 1, 0, 0], [0, 0, 1, 1])"
  "GWI_result_f32 1024 NONE 2 0 1 =
     Some ([- (1533 / 2097152), 4194295 / 4194304, 1539 / 2097152, - (5 / 4194304)],
           [0, 0, 1, 1])"
  "GWI_result_f32 1024 NONE 4 1 146 =
     Some ([- (164867 / 2097152), 502207 / 524288, 140303 / 1048576, - (27415 / 2097152)],
           [0, 1, 2, 3])"
proof -
  have f: "fits_index_t (2 - 1)" "fits_index_t (0 - 1)" "fits_index_t (0 + 2)"
      "fits_index_t (4 - 1)" "fits_index_t (1 - 1)" "fits_index_t (1 + 2)"
    by (simp_all add: fits_index_t_def)
  show "GWI_result_f32 1024 NONE 2 0 0 = Some ([0, 1, 0, 0], [0, 0, 1, 1])"
    using GWI_result_f32_other[of 0 1024 NONE 2 0] f
    by (simp add: coeff_entries_f32_examples Bound_def)
  show "GWI_result_f32 1024 NONE 2 0 1 =
     Some ([- (1533 / 2097152), 4194295 / 4194304, 1539 / 2097152, - (5 / 4194304)],
           [0, 0, 1, 1])"
    using GWI_result_f32_other[of 1 1024 NONE 2 0] f
    by (simp add: coeff_entries_f32_examples Bound_def)
  show "GWI_result_f32 1024 NONE 4 1 146 =
     Some ([- (164867 / 2097152), 502207 / 524288, 140303 / 1048576, - (27415 / 2097152)],
           [0, 1, 2, 3])"
    using GWI_result_f32_other[of 146 1024 NONE 4 1] f
    by (simp add: coeff_entries_f32_examples Bound_def)
qed

lemma GWI_from_in_f32_example:
  "GWI_from_in_f32 1024 NONE 14 7 = Some ([0, 1, 0, 0], [6, 7, 8, 9])"
proof -
  have r: "f32 7 = 7" by code_simp
  have f: "fits_index_t (\<lfloor>7 :: real\<rfloor> - 1)" "fits_index_t (\<lfloor>7 :: real\<rfloor> + 2)"
      "fits_index_t (14 - 1)"
    by (simp_all add: fits_index_t_def)
  have o: "lrintf (f32 (f32 (7 - float_of_index \<lfloor>7 :: real\<rfloor>) * float_of_index 1024)) = 0"
    by code_simp
  have "GWI_from_in_f32 1024 NONE 14 7 = GWI_result_f32 1024 NONE 14 \<lfloor>7 :: real\<rfloor> 0"
    using GWI_from_in_f32_eq[OF r _ _ f(1,2), of 1024 NONE 14] unfolding o by simp
  also have "\<dots> = Some ([0, 1, 0, 0], [6, 7, 8, 9])"
    using GWI_result_f32_other[of 0 1024 NONE 14 "\<lfloor>7 :: real\<rfloor>"] f
    by (simp add: coeff_entries_f32_examples Bound_def)
  finally show ?thesis .
qed

subsection \<open>The input coordinate\<close>

text \<open>
  Claim C5. \<open>GetWeightsAndIndices\<close> maps the output coordinate to the input coordinate
  \<open>in\<close> as follows, each operation being the \<open>float\<close> operation of the source:
  \<open>out_loc * scale\<close> in mode \<open>NONE\<close>; \<open>(out_loc + 0.5) * scale - 0.5\<close> in mode
  \<open>HALF_PIXEL\<close>; and in mode \<open>PYTORCH_HALF_PIXEL\<close> the same half-pixel formula
  when \<open>out_size > 1\<close>, and \<open>0\<close> when \<open>out_size \<le> 1\<close>. The statement is about
  what the function returns: in each of the three modes the result of the call is
  the result of the function from \<open>std::floor\<close> on at this value of \<open>in\<close>, and
  whenever the function returns from a value \<open>in\<close>, the four indices it returns
  are the bounded neighbours \<open>floor in - 1\<close>, \<open>floor in\<close>, \<open>floor in + 1\<close> and
  \<open>floor in + 2\<close> of that value. In the modes other than \<open>HALF_PIXEL\<close> the
  whole result is written out: for a table resolution \<open>0 < K < 2 ^ 24\<close> and a
  \<open>float\<close> value \<open>in\<close> whose floor, less \<open>1\<close> and plus \<open>2\<close>, fits
  \<open>index_t\<close> (as \<open>limit - 1\<close> does), the function returns these indices together
  with the four entries of the \<open>A = -0.75\<close> table at the offset
  \<open>lrintf ((in - floor in) * K)\<close> and at its complement \<open>K - offset\<close>.
\<close>

theorem input_coordinate_by_mode:
  "GetWeightsAndIndices_f32 K scale NONE out_loc out_size limit =
     GWI_from_in_f32 K NONE limit (f32 (float_of_index out_loc * scale)) \<and>
   GetWeightsAndIndices_f32 K scale HALF_PIXEL out_loc out_size limit =
     GWI_from_in_f32 K HALF_PIXEL limit
       (f32 (f32 (f32 (float_of_index out_loc + 0.5) * scale) - 0.5)) \<and>
   GetWeightsAndIndices_f32 K scale PYTORCH_HALF_PIXEL out_loc out_size limit =
     GWI_from_in_f32 K PYTORCH_HALF_PIXEL limit
       (if out_size > 1 then f32 (f32 (f32 (float_of_index out_loc + 0.5) * scale) - 0.5)
        else 0) \<and>
   (GWI_from_in_f32 K m limit in_f = Some (weights, indices) \<longrightarrow>
      indices = [Bound (\<lfloor>in_f\<rfloor> - 1) limit, Bound \<lfloor>in_f\<rfloor> limit,
                 Bound (\<lfloor>in_f\<rfloor> + 1) limit, Bound (\<lfloor>in_f\<rfloor> + 2) limit]) \<and>
   (0 < K \<and> K < 2 ^ 24 \<and> m \<noteq> HALF_PIXEL \<and> f32 in_f = in_f \<and>
    fits_index_t (\<lfloor>in_f\<rfloor> - 1) \<and> fits_index_t (\<lfloor>in_f\<rfloor> + 2) \<and> fits_index_t (limit - 1) \<longrightarrow>
      GWI_from_in_f32 K m limit in_f =
        (let offset = lrintf (f32 (f32 (in_f - float_of_index \<lfloor>in_f\<rfloor>) * float_of_index K))
         in Some ([coeff_entries_f32 K (- 0.75) offset ! 1,
                   coeff_entries_f32 K (- 0.75) offset ! 0,
                   coeff_entries_f32 K (- 0.75) (K - offset) ! 0,
                   coeff_entries_f32 K (- 0.75) (K - offset) ! 1],
                  [Bound (\<lfloor>in_f\<rfloor> - 1) limit, Bound \<lfloor>in_f\<rfloor> limit,
                   Bound (\<lfloor>in_f\<rfloor> + 1) limit, Bound (\<lfloor>in_f\<rfloor> + 2) limit])))"
proof (intro conjI impI)
  show "GetWeightsAndIndices_f32 K scale NONE out_loc out_size limit =
     GWI_from_in_f32 K NONE limit (f32 (float_of_index out_loc * scale))"
    by (simp add: GetWeightsAndIndices_f32_def GWI_in_f32_def)
  show "GetWeightsAndIndices_f32 K scale HALF_PIXEL out_loc out_size limit =
     GWI_from_in_f32 K HALF_PIXEL limit
       (f32 (f32 (f32 (float_of_index out_loc + 0.5) * scale) - 0.5))"
    by (simp add: GetWeightsAndIndices_f32_def GWI_in_f32_def)
  show "GetWeightsAndIndices_f32 K scale PYTORCH_HALF_PIXEL out_loc out_size limit =
     GWI_from_in_f32 K PYTORCH_HALF_PIXEL limit
       (if out_size > 1 then f32 (f32 (f32 (float_of_index out_loc + 0.5) * scale) - 0.5)
        else 0)"
    by (simp add: GetWeightsAndIndices_f32_def GWI_in_f32_def)
next
  assume a: "GWI_from_in_f32 K m limit in_f = Some (weights, indices)"
  then obtain offset where r: "GWI_result_f32 K m limit \<lfloor>in_f\<rfloor> offset = Some (weights, indices)"
    unfolding GWI_from_in_f32_def Let_def idx_def by (auto split: bind_splits if_splits)
  then show "indices = [Bound (\<lfloor>in_f\<rfloor> - 1) limit, Bound \<lfloor>in_f\<rfloor> limit,
                 Bound (\<lfloor>in_f\<rfloor> + 1) limit, Bound (\<lfloor>in_f\<rfloor> + 2) limit]"
    unfolding GWI_result_f32_def Let_def idx_def by (auto split: bind_splits if_splits)
next
  assume a: "0 < K \<and> K < 2 ^ 24 \<and> m \<noteq> HALF_PIXEL \<and> f32 in_f = in_f \<and>
    fits_index_t (\<lfloor>in_f\<rfloor> - 1) \<and> fits_index_t (\<lfloor>in_f\<rfloor> + 2) \<and> fits_index_t (limit - 1)"
  then have K: "0 < K" "K < 2 ^ 24" and m: "m \<noteq> HALF_PIXEL" and rp: "f32 in_f = in_f"
    and f: "fits_index_t (\<lfloor>in_f\<rfloor> - 1)" "fits_index_t (\<lfloor>in_f\<rfloor> + 2)"
      "fits_index_t (limit - 1)"
    by simp_all
  define offset where
    "offset = lrintf (f32 (f32 (in_f - float_of_index \<lfloor>in_f\<rfloor>) * float_of_index K))"
  have r: "0 \<le> offset" "offset \<le> K"
    using offset_range_f32[OF rp K] unfolding offset_def by simp_all
  have "GWI_from_in_f32 K m limit in_f = GWI_result_f32 K m limit \<lfloor>in_f\<rfloor> offset"
    unfolding offset_def by (rule GWI_from_in_f32_eq[OF rp K f(1,2)])
  also note GWI_result_f32_other[OF r K(2) m f(3,1,2)]
  finally show "GWI_from_in_f32 K m limit in_f =
        (let offset = lrintf (f32 (f32 (in_f - float_of_index \<lfloor>in_f\<rfloor>) * float_of_index K))
         in Some ([coeff_entries_f32 K (- 0.75) offset ! 1,
                   coeff_entries_f32 K (- 0.75) offset ! 0,
                   coeff_entries_f32 K (- 0.75) (K - offset) ! 0,
                   coeff_entries_f32 K (- 0.75) (K - offset) ! 1],
                  [Bound (\<lfloor>in_f\<rfloor> - 1) limit, Bound \<lfloor>in_f\<rfloor> limit,
                   Bound (\<lfloor>in_f\<rfloor> + 1) limit, Bound (\<lfloor>in_f\<rfloor> + 2) limit]))"
    unfolding Let_def offset_def .
qed

text \<open>
  An input at which the rounding of the product decides the indices: with the scale
  \<open>11744051 / 8388608\<close> (the \<open>float\<close> nearest to \<open>1.4\<close>) and \<open>out_loc = 5\<close>
  in mode \<open>NONE\<close>, the exact product is below \<open>7\<close>, the \<open>float\<close> product is
  \<open>7\<close>, and the function returns the indices \<open>6, 7, 8, 9\<close> of \<open>in = 7\<close>.
\<close>

theorem input_coordinate_by_mode_witness:
  "GetWeightsAndIndices_f32 1024 (11744051 / 8388608) NONE 5 10 14
     = Some ([0, 1, 0, 0], [6, 7, 8, 9]) \<and>
   f32 (float_of_index 5 * (11744051 / 8388608)) = 7 \<and>
   (5 :: real) * (11744051 / 8388608) < 7 \<and>
   [6, 7, 8, 9] = [Bound (\<lfloor>7 :: real\<rfloor> - 1) 14, Bound \<lfloor>7 :: real\<rfloor> 14,
                   Bound (\<lfloor>7 :: real\<rfloor> + 1) 14, Bound (\<lfloor>7 :: real\<rfloor> + 2) 14] \<and>
   (0 :: int) < 1024 \<and> (1024 :: int) < 2 ^ 24 \<and> NONE \<noteq> HALF_PIXEL \<and> f32 7 = 7 \<and>
   fits_index_t (\<lfloor>7 :: real\<rfloor> - 1) \<and> fits_index_t (\<lfloor>7 :: real\<rfloor> + 2) \<and>
   fits_index_t (14 - 1) \<and>
   lrintf (f32 (f32 (7 - float_of_index \<lfloor>7 :: real\<rfloor>) * float_of_index 1024)) = 0 \<and>
   GWI_from_in_f32 1024 NONE 14 7 =
     Some ([coeff_entries_f32 1024 (- 0.75) 0 ! 1, coeff_entries_f32 1024 (- 0.75) 0 ! 0,
            coeff_entries_f32 1024 (- 0.75) (1024 - 0) ! 0,
            coeff_entries_f32 1024 (- 0.75) (1024 - 0) ! 1],
           [6, 7, 8, 9])"
proof -
  have i: "f32 (float_of_index 5 * (11744051 / 8388608)) = 7" by code_simp
  have r: "f32 7 = 7" by code_simp
  have o: "lrintf (f32 (f32 (7 - float_of_index \<lfloor>7 :: real\<rfloor>) * float_of_index 1024)) = 0"
    by code_simp
  have f: "fits_index_t (\<lfloor>7 :: real\<rfloor> - 1)" "fits_index_t (\<lfloor>7 :: real\<rfloor> + 2)"
      "fits_index_t (14 - 1)"
    by (simp_all add: fits_index_t_def)
  have b: "[6, 7, 8, 9] = [Bound (\<lfloor>7 :: real\<rfloor> - 1) 14, Bound \<lfloor>7 :: real\<rfloor> 14,
                   Bound (\<lfloor>7 :: real\<rfloor> + 1) 14, Bound (\<lfloor>7 :: real\<rfloor> + 2) 14]"
    by (simp add: Bound_def)
  note h = GWI_from_in_f32_example
  note t = input_coordinate_by_mode[where K = 1024 and scale = "11744051 / 8388608"
      and out_loc = 5 and out_size = 10 and limit = 14 and m = NONE and in_f = 7
      and weights = "[0, 1, 0, 0]" and indices = "[6, 7, 8, 9]"]
  have g: "GetWeightsAndIndices_f32 1024 (11744051 / 8388608) NONE 5 10 14
     = Some ([0, 1, 0, 0], [6, 7, 8, 9])"
    using t h i by simp
  have e: "GWI_from_in_f32 1024 NONE 14 7 =
     Some ([coeff_entries_f32 1024 (- 0.75) 0 ! 1, coeff_entries_f32 1024 (- 0.75) 0 ! 0,
            coeff_entries_f32 1024 (- 0.75) (1024 - 0) ! 0,
            coeff_entries_f32 1024 (- 0.75) (1024 - 0) ! 1],
           [6, 7, 8, 9])"
    using t r f o b unfolding Let_def by simp
  show ?thesis using g i b r f o e by simp
qed

subsection \<open>The table offset stays inside the table\<close>

text \<open>
  Claim C6, amended. Take a table resolution \<open>0 < K < 2 ^ 24\<close> and an input of
  \<open>GetWeightsAndIndices\<close> for which the floor of the input coordinate \<open>in\<close>, less
  \<open>1\<close> and plus \<open>2\<close>, and \<open>limit - 1\<close> fit \<open>index_t\<close> (so \<open>in\<close> is finite and
  below \<open>2 ^ 63\<close> in absolute value). Then the call is the rest of the function at
  \<open>in_loc = floor in\<close> and at the table offset
  \<open>lrintf (delta * K)\<close>; this offset lies between \<open>0\<close> and \<open>K\<close>, both included;
  the table has \<open>2 * (K + 1)\<close> entries; the four positions \<open>2 * offset\<close>,
  \<open>2 * offset + 1\<close>, \<open>2 * (K - offset)\<close> and \<open>2 * (K - offset) + 1\<close> are positions of
  the table; and the call is defined: no conversion leaves the 64-bit range and no
  read leaves the table.
\<close>

theorem table_offset_in_range:
  fixes K :: index_t and scale :: real and m :: CoordinateTransformationMode
    and out_loc out_size limit :: index_t
  defines "in_f \<equiv> GWI_in_f32 scale m out_loc out_size"
  defines "offset \<equiv> lrintf (f32 (f32 (in_f - float_of_index \<lfloor>in_f\<rfloor>) * float_of_index K))"
  assumes "0 < K" and "K < 2 ^ 24"
    and "fits_index_t (\<lfloor>in_f\<rfloor> - 1)" and "fits_index_t (\<lfloor>in_f\<rfloor> + 2)"
    and "fits_index_t (limit - 1)"
  shows "GetWeightsAndIndices_f32 K scale m out_loc out_size limit
           = GWI_result_f32 K m limit \<lfloor>in_f\<rfloor> offset \<and>
         0 \<le> offset \<and> offset \<le> K \<and>
         int (length (GetCoeffsTable_f32 K hp)) = 2 * (K + 1) \<and>
         {2 * offset, 2 * offset + 1, 2 * (K - offset), 2 * (K - offset) + 1}
           \<subseteq> {0 ..< int (length (GetCoeffsTable_f32 K hp))} \<and>
         GetWeightsAndIndices_f32 K scale m out_loc out_size limit \<noteq> None"
proof -
  have rp: "f32 in_f = in_f" unfolding in_f_def by (rule GWI_in_f32_repr)
  have r: "0 \<le> offset" "offset \<le> K"
    using offset_range_f32[OF rp assms(3,4)] unfolding offset_def by simp_all
  have e: "GetWeightsAndIndices_f32 K scale m out_loc out_size limit
           = GWI_result_f32 K m limit \<lfloor>in_f\<rfloor> offset"
    unfolding GetWeightsAndIndices_f32_def in_f_def[symmetric] offset_def
    by (rule GWI_from_in_f32_eq[OF rp assms(3,4,5,6)])
  have K0: "0 \<le> K" using assms(3) by simp
  have len: "int (length (GetCoeffsTable_f32 K hp)) = 2 * (K + 1)"
    by (simp add: GetCoeffsTable_f32_def length_InitCoeffsTable_f32[OF K0])
  have sub: "{2 * offset, 2 * offset + 1, 2 * (K - offset), 2 * (K - offset) + 1}
           \<subseteq> {0 ..< int (length (GetCoeffsTable_f32 K hp))}"
    unfolding len using r by simp
  have "GWI_result_f32 K m limit \<lfloor>in_f\<rfloor> offset \<noteq> None"
  proof (cases "m = HALF_PIXEL")
    case True
    then show ?thesis
      using GWI_result_f32_half_pixel[OF r assms(4,7,5,6)] by simp
  next
    case False
    then show ?thesis
      using GWI_result_f32_other[OF r assms(4) False assms(7,5,6)] by simp
  qed
  with e r len sub show ?thesis by simp
qed

theorem table_offset_in_range_witness:
  "(0 :: int) < 1024 \<and> (1024 :: int) < 2 ^ 24 \<and>
   \<lfloor>GWI_in_f32 (9586981 / 16777216) NONE 2 7\<rfloor> = 1 \<and>
   fits_index_t (1 - 1) \<and> fits_index_t (1 + 2) \<and> fits_index_t (4 - 1) \<and>
   lrintf (f32 (f32 (GWI_in_f32 (9586981 / 16777216) NONE 2 7 - float_of_index 1)
                 * float_of_index 1024)) = 146 \<and>
   int (length (GetCoeffsTable_f32 1024 False)) = 2050 \<and>
   GetWeightsAndIndices_f32 1024 (9586981 / 16777216) NONE 2 7 4
     = GWI_result_f32 1024 NONE 4 1 146 \<and>
   GetWeightsAndIndices_f32 1024 (9586981 / 16777216) NONE 2 7 4 \<noteq> None"
proof -
  have fl: "\<lfloor>GWI_in_f32 (9586981 / 16777216) NONE 2 7\<rfloor> = 1"
    unfolding GWI_in_f32_examples by simp
  have h: "(0 :: int) < 1024" "(1024 :: int) < 2 ^ 24"
      "fits_index_t (1 - 1)" "fits_index_t (1 + 2)" "fits_index_t (4 - 1)"
    by (simp_all add: fits_index_t_def)
  have o: "lrintf (f32 (f32 (GWI_in_f32 (9586981 / 16777216) NONE 2 7 - float_of_index 1)
                 * float_of_index 1024)) = 146"
    unfolding GWI_in_f32_examples by (rule offset_examples)
  note c = table_offset_in_range[of 1024 "9586981 / 16777216" NONE 2 7 4 False,
      unfolded fl o, OF h]
  have e: "GetWeightsAndIndices_f32 1024 (9586981 / 16777216) NONE 2 7 4
             = GWI_result_f32 1024 NONE 4 1 146"
    using c by (rule conjunct1)
  have len: "int (length (GetCoeffsTable_f32 1024 False)) = 2050" using c by simp
  have nn: "GetWeightsAndIndices_f32 1024 (9586981 / 16777216) NONE 2 7 4 \<noteq> None"
    using c by blast
  show ?thesis using h fl o e len nn by blast
qed

text \<open>
  The claim as it stands, for every input, does not hold. With the finite scale
  \<open>2 ^ 64\<close> and \<open>out_loc = 1\<close> in mode \<open>NONE\<close> the input coordinate is
  \<open>2 ^ 64\<close>; its floor does not fit \<open>index_t\<close>, the conversion in
  \<open>const index_t in_loc = std::floor(in)\<close> is undefined, and the call computes no
  offset between \<open>0\<close> and \<open>K\<close>.
\<close>

theorem table_offset_in_range_counterexample:
  "GWI_in_f32 (2 ^ 64) NONE 1 2 = 2 ^ 64 \<and>
   idx \<lfloor>GWI_in_f32 (2 ^ 64) NONE 1 2\<rfloor> = None \<and>
   GetWeightsAndIndices_f32 1024 (2 ^ 64) NONE 1 2 2 = None"
proof -
  have i: "GWI_in_f32 (2 ^ 64) NONE 1 2 = 2 ^ 64" by (rule GWI_in_f32_examples)
  have n: "idx \<lfloor>(2 :: real) ^ 64\<rfloor> = None" by (simp add: idx_def fits_index_t_def)
  show ?thesis
    unfolding GetWeightsAndIndices_f32_def GWI_from_in_f32_def i n by simp
qed

subsection \<open>The table offset is rounded to nearest, a tie to the even neighbour\<close>

text \<open>
  Claim C7, amended. With \<open>frac = in - floor in\<close> (the source's \<open>delta\<close>, a
  \<open>float\<close> difference), \<open>GetWeightsAndIndices\<close> works from the table offset that is
  the \<open>float\<close> product \<open>frac * K\<close> rounded to the nearest integer, a tie (a
  fractional part of exactly one half) going to the even neighbour, as \<open>lrintf\<close> does
  in the default rounding mode: the offset is \<open>round (frac * K)\<close> except at a tie
  above an even integer, where it is the integer below. It is a rounding to nearest
  and not a truncation: no integer is closer to the product than the offset. The
  statement is about what the function returns: the result of the call is the result
  of the function from the assignment of the indices on at this offset, in general
  with the two conversions to \<open>index_t\<close> in front, and without them for a table
  resolution \<open>0 < K < 2 ^ 24\<close> and an input coordinate whose floor, less \<open>1\<close> and
  plus \<open>2\<close>, fits \<open>index_t\<close>.
\<close>

theorem table_offset_rounds_half_to_even:
  "GetWeightsAndIndices_f32 K scale m out_loc out_size limit =
     do {
       in_loc \<leftarrow> idx \<lfloor>GWI_in_f32 scale m out_loc out_size\<rfloor>;
       offset \<leftarrow> idx (let v = f32 (f32 (GWI_in_f32 scale m out_loc out_size
                                             - float_of_index in_loc) * float_of_index K)
                       in if v - of_int \<lfloor>v\<rfloor> = 1 / 2 \<and> even \<lfloor>v\<rfloor> then \<lfloor>v\<rfloor> else round v);
       GWI_result_f32 K m limit in_loc offset
     } \<and>
   (\<forall>(v :: real) n. \<bar>of_int (if v - of_int \<lfloor>v\<rfloor> = 1 / 2 \<and> even \<lfloor>v\<rfloor> then \<lfloor>v\<rfloor> else round v) - v\<bar>
            \<le> \<bar>of_int n - v\<bar>) \<and>
   (0 < K \<and> K < 2 ^ 24 \<and>
    fits_index_t (\<lfloor>GWI_in_f32 scale m out_loc out_size\<rfloor> - 1) \<and>
    fits_index_t (\<lfloor>GWI_in_f32 scale m out_loc out_size\<rfloor> + 2) \<longrightarrow>
      GetWeightsAndIndices_f32 K scale m out_loc out_size limit =
        GWI_result_f32 K m limit \<lfloor>GWI_in_f32 scale m out_loc out_size\<rfloor>
          (let v = f32 (f32 (GWI_in_f32 scale m out_loc out_size
                               - float_of_index \<lfloor>GWI_in_f32 scale m out_loc out_size\<rfloor>)
                        * float_of_index K)
           in if v - of_int \<lfloor>v\<rfloor> = 1 / 2 \<and> even \<lfloor>v\<rfloor> then \<lfloor>v\<rfloor> else round v))"
proof (intro conjI allI impI)
  show "GetWeightsAndIndices_f32 K scale m out_loc out_size limit =
     do {
       in_loc \<leftarrow> idx \<lfloor>GWI_in_f32 scale m out_loc out_size\<rfloor>;
       offset \<leftarrow> idx (let v = f32 (f32 (GWI_in_f32 scale m out_loc out_size
                                             - float_of_index in_loc) * float_of_index K)
                       in if v - of_int \<lfloor>v\<rfloor> = 1 / 2 \<and> even \<lfloor>v\<rfloor> then \<lfloor>v\<rfloor> else round v);
       GWI_result_f32 K m limit in_loc offset
     }"
    unfolding GetWeightsAndIndices_f32_def GWI_from_in_f32_def Let_def
      lrintf_round[symmetric] ..
next
  fix v :: real and n :: int
  show "\<bar>of_int (if v - of_int \<lfloor>v\<rfloor> = 1 / 2 \<and> even \<lfloor>v\<rfloor> then \<lfloor>v\<rfloor> else round v) - v\<bar>
            \<le> \<bar>of_int n - v\<bar>"
    unfolding lrintf_round[symmetric] by (rule lrintf_nearest_all)
next
  assume a: "0 < K \<and> K < 2 ^ 24 \<and>
    fits_index_t (\<lfloor>GWI_in_f32 scale m out_loc out_size\<rfloor> - 1) \<and>
    fits_index_t (\<lfloor>GWI_in_f32 scale m out_loc out_size\<rfloor> + 2)"
  then have K: "0 < K" "K < 2 ^ 24"
    and f: "fits_index_t (\<lfloor>GWI_in_f32 scale m out_loc out_size\<rfloor> - 1)"
      "fits_index_t (\<lfloor>GWI_in_f32 scale m out_loc out_size\<rfloor> + 2)"
    by simp_all
  show "GetWeightsAndIndices_f32 K scale m out_loc out_size limit =
        GWI_result_f32 K m limit \<lfloor>GWI_in_f32 scale m out_loc out_size\<rfloor>
          (let v = f32 (f32 (GWI_in_f32 scale m out_loc out_size
                               - float_of_index \<lfloor>GWI_in_f32 scale m out_loc out_size\<rfloor>)
                        * float_of_index K)
           in if v - of_int \<lfloor>v\<rfloor> = 1 / 2 \<and> even \<lfloor>v\<rfloor> then \<lfloor>v\<rfloor> else round v)"
    unfolding GetWeightsAndIndices_f32_def Let_def lrintf_round[symmetric]
    by (rule GWI_from_in_f32_eq[OF GWI_in_f32_repr K f])
qed

text \<open>
  At a tie: with the table resolution \<open>1024\<close>, the scale \<open>1 / 2048\<close> and
  \<open>out_loc = 1\<close> in mode \<open>NONE\<close> the product is \<open>1 / 2\<close>, half-way above the
  even integer \<open>0\<close>, and the function works from the offset \<open>0\<close>.
\<close>

theorem table_offset_rounds_half_to_even_witness:
  "(0 :: int) < 1024 \<and> (1024 :: int) < 2 ^ 24 \<and>
   \<lfloor>GWI_in_f32 (1 / 2048) NONE 1 8\<rfloor> = 0 \<and>
   fits_index_t (0 - 1) \<and> fits_index_t (0 + 2) \<and>
   f32 (f32 (GWI_in_f32 (1 / 2048) NONE 1 8 - float_of_index 0) * float_of_index 1024) = 1 / 2 \<and>
   (1 / 2 :: real) - of_int \<lfloor>1 / 2 :: real\<rfloor> = 1 / 2 \<and> even \<lfloor>1 / 2 :: real\<rfloor> \<and>
   \<lfloor>1 / 2 :: real\<rfloor> = 0 \<and>
   GetWeightsAndIndices_f32 1024 (1 / 2048) NONE 1 8 2 = GWI_result_f32 1024 NONE 2 0 0 \<and>
   GWI_result_f32 1024 NONE 2 0 0 = Some ([0, 1, 0, 0], [0, 0, 1, 1])"
proof -
  have fl: "\<lfloor>GWI_in_f32 (1 / 2048) NONE 1 8\<rfloor> = 0" unfolding GWI_in_f32_examples by simp
  have v: "f32 (f32 (GWI_in_f32 (1 / 2048) NONE 1 8 - float_of_index 0) * float_of_index 1024)
             = 1 / 2"
    unfolding GWI_in_f32_examples by (rule offset_examples)
  have h: "(0 :: int) < 1024" "(1024 :: int) < 2 ^ 24" "fits_index_t (0 - 1)"
      "fits_index_t (0 + 2)"
    by (simp_all add: fits_index_t_def)
  have t: "(1 / 2 :: real) - of_int \<lfloor>1 / 2 :: real\<rfloor> = 1 / 2" "even \<lfloor>1 / 2 :: real\<rfloor>"
      "\<lfloor>1 / 2 :: real\<rfloor> = 0"
    by simp_all
  note c = table_offset_rounds_half_to_even[of 1024 "1 / 2048" NONE 1 8 2,
      unfolded fl v Let_def]
  have o: "(if (1 / 2 :: real) - of_int \<lfloor>1 / 2 :: real\<rfloor> = 1 / 2 \<and> even \<lfloor>1 / 2 :: real\<rfloor>
            then \<lfloor>1 / 2 :: real\<rfloor> else round (1 / 2 :: real)) = 0"
    by simp
  have "GetWeightsAndIndices_f32 1024 (1 / 2048) NONE 1 8 2 =
      GWI_result_f32 1024 NONE 2 0
        (if (1 / 2 :: real) - of_int \<lfloor>1 / 2 :: real\<rfloor> = 1 / 2 \<and> even \<lfloor>1 / 2 :: real\<rfloor>
         then \<lfloor>1 / 2 :: real\<rfloor> else round (1 / 2 :: real))"
    using c h by blast
  then have g: "GetWeightsAndIndices_f32 1024 (1 / 2048) NONE 1 8 2
      = GWI_result_f32 1024 NONE 2 0 0"
    unfolding o .
  show ?thesis using h fl v t g GWI_result_f32_examples by (intro conjI)
qed

text \<open>
  The claim as it stands, with \<open>round\<close> (a tie going up), does not hold. With the
  table resolution \<open>1024\<close>, the scale \<open>1 / 2048\<close> and \<open>out_loc = 1\<close> in mode
  \<open>NONE\<close>, the product \<open>frac * K\<close> is exactly \<open>1 / 2\<close> and \<open>round\<close> gives
  \<open>1\<close>; the function works from the offset \<open>0\<close> and returns the weights
  \<open>0, 1, 0, 0\<close>, not the weights of the offset \<open>1\<close>.
\<close>

theorem table_offset_rounds_to_nearest_counterexample:
  "f32 (f32 (GWI_in_f32 (1 / 2048) NONE 1 8 - float_of_index 0) * float_of_index 1024) = 1 / 2 \<and>
   round (1 / 2 :: real) = 1 \<and>
   GetWeightsAndIndices_f32 1024 (1 / 2048) NONE 1 8 2 = Some ([0, 1, 0, 0], [0, 0, 1, 1]) \<and>
   GWI_result_f32 1024 NONE 2 0 (round (1 / 2 :: real)) =
     Some ([- (1533 / 2097152), 4194295 / 4194304, 1539 / 2097152, - (5 / 4194304)],
           [0, 0, 1, 1])"
proof -
  have v: "f32 (f32 (GWI_in_f32 (1 / 2048) NONE 1 8 - float_of_index 0) * float_of_index 1024)
             = 1 / 2"
    unfolding GWI_in_f32_examples by (rule offset_examples)
  have r: "round (1 / 2 :: real) = 1" by (simp add: round_def)
  have l: "lrintf (1 / 2) = 0" by (simp add: lrintf_def)
  have fl: "\<lfloor>1 / 2048 :: real\<rfloor> = 0" by simp
  have i: "idx 0 = Some 0" by (simp add: idx_def fits_index_t_def)
  have g: "GetWeightsAndIndices_f32 1024 (1 / 2048) NONE 1 8 2 = GWI_result_f32 1024 NONE 2 0 0"
    by (simp only: GetWeightsAndIndices_f32_def GWI_from_in_f32_def Let_def
        GWI_in_f32_examples fl i Option.bind_lunit offset_examples l)
  show ?thesis
    unfolding v r g GWI_result_f32_examples by simp
qed

subsection \<open>The rounding error of the interpolation\<close>













subsection \<open>The separable interpolation and the full 2D convolution\<close>








end
